theory Spec2Isabelle
  imports Complex_Main
begin

section \<open>Numbers, errors and 3-vectors\<close>

text \<open>
  The program computes with IEEE doubles inside numpy arrays. This development reads every
  float as a real number: rounding is not modelled, so a property the specification states
  "within floating tolerance" is stated here as an exact equation over the reals. Where
  the program raises an exception the model returns \<open>Inl\<close> of an error value.

  A \<open>Vector\<close> is a numpy array of three direction cosines; it is modelled as a triple.
\<close>

datatype error = TypeError | ValueError | IndexError | ZeroStepError

type_synonym vec = "real \<times> real \<times> real"

definition vx :: "vec \<Rightarrow> real" where
  "vx v = fst v"

definition vy :: "vec \<Rightarrow> real" where
  "vy v = fst (snd v)"

definition vz :: "vec \<Rightarrow> real" where
  "vz v = snd (snd v)"

text \<open>\<open>a.dot(b)\<close> for two 3-vectors.\<close>

definition dot :: "vec \<Rightarrow> vec \<Rightarrow> real" where
  "dot a b = vx a * vx b + vy a * vy b + vz a * vz b"

text \<open>\<open>np.cross(a, b)\<close>.\<close>

definition cross :: "vec \<Rightarrow> vec \<Rightarrow> vec" where
  "cross a b = (vy a * vz b - vz a * vy b,
                vz a * vx b - vx a * vz b,
                vx a * vy b - vy a * vx b)"

text \<open>Elementwise arithmetic of an array with a scalar, and of two arrays.\<close>

definition vscale :: "vec \<Rightarrow> real \<Rightarrow> vec" where
  "vscale v c = (vx v * c, vy v * c, vz v * c)"

definition vdiv :: "vec \<Rightarrow> real \<Rightarrow> vec" where
  "vdiv v c = (vx v / c, vy v / c, vz v / c)"

definition vneg :: "vec \<Rightarrow> vec" where
  "vneg v = (- vx v, - vy v, - vz v)"

definition vadd :: "vec \<Rightarrow> vec \<Rightarrow> vec" where
  "vadd a b = (vx a + vx b, vy a + vy b, vz a + vz b)"

text \<open>The property \<open>Vector.length\<close>: \<open>sqrt(self.dot(self))\<close>.\<close>

definition vec_length :: "vec \<Rightarrow> real" where
  "vec_length v = sqrt (dot v v)"

section \<open>Cross products\<close>

text \<open>
  \<open>normalized_cross(a, b)\<close>: the cross product divided by its length, or the cross
  product itself when that length is not positive.
\<close>

definition normalized_cross :: "vec \<Rightarrow> vec \<Rightarrow> vec" where
  "normalized_cross a b =
     (let c = cross a b; length = sqrt (dot c c)
      in if length > 0 then vdiv c length else c)"

text \<open>
  \<open>VectorSet.normalized_cross_with(other)\<close>: the two nested loops fill the rows of the
  result in order, the outer loop over \<open>self\<close>, the inner over \<open>other\<close>; each row is
  \<open>cross if cross[2] < 0 else -cross\<close>.
\<close>

definition oriented_row :: "vec \<Rightarrow> vec \<Rightarrow> vec" where
  "oriented_row self_vector other_vector =
     (let cross = normalized_cross self_vector other_vector
      in if vz cross < 0 then cross else vneg cross)"

definition normalized_cross_with_set :: "vec list \<Rightarrow> vec list \<Rightarrow> vec list" where
  "normalized_cross_with_set self other =
     concat (map (\<lambda>self_vector. map (\<lambda>other_vector. oriented_row self_vector other_vector) other) self)"

section \<open>Scalar helpers from \<open>math\<close> and numpy\<close>

text \<open>\<open>math.radians\<close> and \<open>math.degrees\<close>.\<close>

definition radians :: "real \<Rightarrow> real" where
  "radians d = d * pi / 180"

definition degrees :: "real \<Rightarrow> real" where
  "degrees r = r * 180 / pi"

text \<open>\<open>np.clip(a, lo, hi)\<close> is \<open>minimum(hi, maximum(a, lo))\<close>.\<close>

definition np_clip :: "real \<Rightarrow> real \<Rightarrow> real \<Rightarrow> real" where
  "np_clip a lo hi = min hi (max a lo)"

text \<open>
  \<open>math.atan2(y, x)\<close> is a library function, not code of the repository: it is the
  angle in \<open>(-pi, pi]\<close> of the point \<open>(x, y)\<close>, with \<open>atan2(0, 0) = 0\<close>.
\<close>

definition atan2 :: "real \<Rightarrow> real \<Rightarrow> real" where
  "atan2 y x =
     (if 0 < x then arctan (y / x)
      else if x < 0 then (if 0 \<le> y then arctan (y / x) + pi else arctan (y / x) - pi)
      else if 0 < y then pi / 2
      else if y < 0 then - (pi / 2)
      else 0)"

text \<open>
  Python's \<open>%\<close> on floats (and numpy's on arrays) takes the sign of the divisor:
  \<open>x % m = x - m * floor(x / m)\<close>.
\<close>

definition py_mod :: "real \<Rightarrow> real \<Rightarrow> real" where
  "py_mod x m = x - m * of_int \<lfloor>x / m\<rfloor>"

text \<open>
  \<open>np.arange(start, stop, step)\<close>: the values \<open>start + i * step\<close> for
  \<open>i < ceil((stop - start) / step)\<close>, none when that count is not positive; a step of
  zero raises.
\<close>

definition arange :: "real \<Rightarrow> real \<Rightarrow> real \<Rightarrow> error + real list" where
  "arange start stop step =
     (if step = 0 then Inl ZeroStepError
      else Inr (map (\<lambda>i. start + real i * step) [0..<nat \<lceil>(stop - start) / step\<rceil>]))"

text \<open>
  A function of \<open>math\<close> converts its argument with \<open>float()\<close>; on a numpy array that
  succeeds for an array of one element and raises \<open>TypeError\<close> for any other size.
\<close>

definition float_of_array :: "real list \<Rightarrow> error + real" where
  "float_of_array xs = (case xs of [x] \<Rightarrow> Inr x | _ \<Rightarrow> Inl TypeError)"

definition list_of_vec :: "vec \<Rightarrow> real list" where
  "list_of_vec v = [vx v, vy v, vz v]"

section \<open>Vector\<close>

text \<open>\<open>Vector.cross_with\<close> returns the cross product, a \<open>Vector\<close> of three components.\<close>

definition cross_with :: "vec \<Rightarrow> vec \<Rightarrow> vec" where
  "cross_with self other = cross self other"

text \<open>
  \<open>Vector.angle_with(other, precise)\<close>. \<open>acos_angle\<close> is the body of the branch taken
  when \<open>precise\<close> is false (the default), which never raises. The precise branch hands
  the \<open>Vector\<close> returned by \<open>cross_with\<close> to \<open>math.atan2\<close>, which converts it with
  \<open>float()\<close>.
\<close>

definition acos_angle :: "vec \<Rightarrow> vec \<Rightarrow> real" where
  "acos_angle self other =
     (let self_length = vec_length self;
          other_length = sqrt (dot other other)
      in arccos (np_clip (dot self other / (self_length * other_length)) (- 1) 1))"

definition angle_with :: "vec \<Rightarrow> vec \<Rightarrow> bool \<Rightarrow> error + real" where
  "angle_with self other precise =
     (if \<not> precise then Inr (acos_angle self other)
      else
        (case float_of_array (list_of_vec (cross_with self other)) of
           Inl e \<Rightarrow> Inl e
         | Inr c \<Rightarrow> Inr (atan2 c (dot self other))))"

text \<open>\<open>dcos_line\<close> on one (trend, plunge) pair, and \<open>Vector.from_attitude\<close>.\<close>

definition dcos_line :: "real \<times> real \<Rightarrow> vec" where
  "dcos_line trend_plunge =
     (let tr = radians (fst trend_plunge); pl = radians (snd trend_plunge)
      in (cos pl * sin tr, cos pl * cos tr, - sin pl))"

definition from_attitude :: "real \<Rightarrow> real \<Rightarrow> vec" where
  "from_attitude trend plunge = dcos_line (trend, plunge)"

text \<open>The property \<open>Vector.attitude\<close>.\<close>

definition attitude :: "vec \<Rightarrow> real \<times> real" where
  "attitude self =
     (let n = vdiv self (vec_length self);
          z = vz n;
          x = (if z > 0 then - vx n else vx n);
          y = (if z > 0 then - vy n else vy n)
      in (py_mod (degrees (atan2 x y)) 360, degrees (arcsin \<bar>z\<bar>)))"

text \<open>The properties \<open>direction_vector\<close> and \<open>dip_vector\<close>.\<close>

definition direction_vector :: "vec \<Rightarrow> vec" where
  "direction_vector self =
     (if \<bar>vz self\<bar> = 1 then (1, 0, 0)
      else (let direction = (vy self, - vx self, 0)
            in vdiv direction (vec_length direction)))"

definition dip_vector :: "vec \<Rightarrow> vec" where
  "dip_vector self = cross (vdiv self (vec_length self)) (direction_vector self)"

text \<open>
  \<open>get_great_circle(step, offset)\<close> returns a 1-tuple; the model returns its only
  element, the rows \<open>direction_vector * cos t + dip_vector * sin t\<close>.
\<close>

definition get_great_circle :: "vec \<Rightarrow> real \<Rightarrow> real \<Rightarrow> error + vec list" where
  "get_great_circle self step offset =
     (case arange offset (2 * pi + offset) step of
        Inl e \<Rightarrow> Inl e
      | Inr ts \<Rightarrow>
          (let theta_range = map (\<lambda>t. py_mod t (2 * pi)) ts
           in Inr (map (\<lambda>t. vadd (vscale (direction_vector self) (cos t))
                                  (vscale (dip_vector self) (sin t))) theta_range)))"

text \<open>
  \<open>get_small_circle(alpha, A, B, step, offset)\<close>. In the second branch the great circle
  is taken with the default offset and multiplied column by column with the sines of the modulated angles;
  both arrays come from \<open>arange\<close> over the same range and step.
\<close>

definition get_small_circle ::
  "vec \<Rightarrow> real \<Rightarrow> real \<Rightarrow> real \<Rightarrow> real \<Rightarrow> real \<Rightarrow> error + (vec list \<times> vec list)" where
  "get_small_circle self alpha A B step offset =
     (if A = 0 \<and> B = 0 then
        (case get_great_circle self step offset of
           Inl e \<Rightarrow> Inl e
         | Inr gc \<Rightarrow>
             (let sc = map (\<lambda>g. vadd (vscale g (sin alpha)) (vscale self (cos alpha))) gc
              in Inr (sc, map vneg sc)))
      else
        (case arange 0 (2 * pi) step of
           Inl e \<Rightarrow> Inl e
         | Inr theta_range \<Rightarrow>
             (let alpha_t = map (\<lambda>t. alpha + A * cos (2 * t) + B * sin (2 * t)) theta_range
              in case get_great_circle self step 0 of
                   Inl e \<Rightarrow> Inl e
                 | Inr gc \<Rightarrow>
                     (let sc = map (\<lambda>(g, a). vadd (vscale g (sin a)) (vscale self (cos a)))
                                 (zip gc alpha_t)
                      in Inr (sc, map vneg sc)))))"

section \<open>Matrices\<close>

text \<open>A 3 by 3 array, as its three rows.\<close>

type_synonym mat = "vec \<times> vec \<times> vec"

definition eye3 :: mat where
  "eye3 = ((1, 0, 0), (0, 1, 0), (0, 0, 1))"

definition mat_vec :: "mat \<Rightarrow> vec \<Rightarrow> vec" where
  "mat_vec m v = (dot (fst m) v, dot (fst (snd m)) v, dot (snd (snd m)) v)"

definition mat_col :: "mat \<Rightarrow> nat \<Rightarrow> vec" where
  "mat_col m j = (list_of_vec (fst m) ! j, list_of_vec (fst (snd m)) ! j, list_of_vec (snd (snd m)) ! j)"

definition mat_mul :: "mat \<Rightarrow> mat \<Rightarrow> mat" where
  "mat_mul a b =
     (let c0 = mat_col b 0; c1 = mat_col b 1; c2 = mat_col b 2;
          row = (\<lambda>r. (dot r c0, dot r c1, dot r c2))
      in (row (fst a), row (fst (snd a)), row (snd (snd a))))"

definition mat_transpose :: "mat \<Rightarrow> mat" where
  "mat_transpose m = (mat_col m 0, mat_col m 1, mat_col m 2)"

definition mat_sub :: "mat \<Rightarrow> mat \<Rightarrow> mat" where
  "mat_sub a b =
     (vadd (fst a) (vneg (fst b)), vadd (fst (snd a)) (vneg (fst (snd b))),
      vadd (snd (snd a)) (vneg (snd (snd b))))"

text \<open>\<open>projection_matrix\<close> is \<open>np.outer(self, self)\<close>; \<open>rejection_matrix\<close> is the identity minus it.\<close>

definition projection_matrix :: "vec \<Rightarrow> mat" where
  "projection_matrix self = (vscale self (vx self), vscale self (vy self), vscale self (vz self))"

definition rejection_matrix :: "vec \<Rightarrow> mat" where
  "rejection_matrix self = mat_sub eye3 (projection_matrix self)"

text \<open>\<open>arc_to(other, step)\<close>, again the only element of the returned 1-tuple.\<close>

definition arc_to :: "vec \<Rightarrow> vec \<Rightarrow> real \<Rightarrow> error + vec list" where
  "arc_to self other step =
     (let normal0 = mat_vec (rejection_matrix self) other;
          normal = vdiv normal0 (sqrt (dot normal0 normal0))
      in case angle_with self other False of
           Inl e \<Rightarrow> Inl e
         | Inr angle \<Rightarrow>
             (case arange 0 angle step of
                Inl e \<Rightarrow> Inl e
              | Inr theta_range \<Rightarrow>
                  Inr (map (\<lambda>t. vadd (vscale self (cos t)) (vscale normal (sin t))) theta_range)))"

text \<open>\<open>build_rotation_matrix(azim, plng, rake)\<close>.\<close>

definition R1 :: "real \<Rightarrow> mat" where
  "R1 rake = ((cos rake, 0, sin rake), (0, 1, 0), (- sin rake, 0, cos rake))"

definition R2 :: "real \<Rightarrow> mat" where
  "R2 plng = ((1, 0, 0), (0, cos plng, sin plng), (0, - sin plng, cos plng))"

definition R3 :: "real \<Rightarrow> mat" where
  "R3 azim = ((cos azim, sin azim, 0), (- sin azim, cos azim, 0), (0, 0, 1))"

definition build_rotation_matrix :: "real \<Rightarrow> real \<Rightarrow> real \<Rightarrow> mat" where
  "build_rotation_matrix azim plng rake =
     mat_mul (mat_mul (R3 (radians azim)) (R2 (radians plng))) (R1 (radians rake))"

section \<open>Projections\<close>

text \<open>
  The data handed to a projection is array-like: one point (a one-dimensional array) or
  a list of points (a two-dimensional array, as its rows).
\<close>

datatype arr = Arr1 "real list" | Arr2 "real list list"

text \<open>
  The arithmetic of \<open>_pre_direct\<close>, \<open>_dtr\<close> and \<open>_itr\<close> is elementwise on coordinate
  arrays of one shape: it acts on one point when the coordinates are scalars, and on
  every point when they are arrays.
\<close>

datatype 'a batch = Single 'a | Many "'a list"

fun batch_map :: "('a \<Rightarrow> 'b) \<Rightarrow> 'a batch \<Rightarrow> 'b batch" where
  "batch_map f (Single a) = Single (f a)"
| "batch_map f (Many as) = Many (map f as)"

definition rectangular :: "real list list \<Rightarrow> bool" where
  "rectangular rows = list_all (\<lambda>r. length r = length (hd rows)) rows"

text \<open>
  \<open>np.transpose\<close>: a one-dimensional array is returned as it is, an array of shape
  \<open>(n, k)\<close> becomes one of shape \<open>(k, n)\<close>; rows of different lengths are no array.
\<close>

definition np_transpose :: "arr \<Rightarrow> error + arr" where
  "np_transpose a =
     (case a of
        Arr1 xs \<Rightarrow> Inr (Arr1 xs)
      | Arr2 rows \<Rightarrow>
          if rectangular rows then
            Inr (Arr2 (if rows = [] then []
                       else map (\<lambda>j. map (\<lambda>r. r ! j) rows) [0..<length (hd rows)]))
          else Inl ValueError)"

text \<open>\<open>M.dot(a)\<close> for a 3 by 3 matrix: \<open>a\<close> has shape \<open>(3,)\<close> or \<open>(3, n)\<close>.\<close>

definition mat_dot :: "mat \<Rightarrow> arr \<Rightarrow> error + arr" where
  "mat_dot m a =
     (case a of
        Arr1 xs \<Rightarrow>
          (case xs of
             [x, y, z] \<Rightarrow> Inr (Arr1 (list_of_vec (mat_vec m (x, y, z))))
           | _ \<Rightarrow> Inl ValueError)
      | Arr2 rows \<Rightarrow>
          (case rows of
             [xs, ys, zs] \<Rightarrow>
               if length xs = length ys \<and> length ys = length zs then
                 (let ps = map (mat_vec m) (zip xs (zip ys zs))
                  in Inr (Arr2 [map vx ps, map vy ps, map vz ps]))
               else Inl ValueError
           | _ \<Rightarrow> Inl ValueError))"

text \<open>
  \<open>x, y, z = a\<close> needs three entries along the first axis and raises \<open>ValueError\<close>
  otherwise; \<open>_itr(*a)\<close> needs two and raises \<open>TypeError\<close> otherwise.
\<close>

definition unpack_xyz :: "arr \<Rightarrow> error + vec batch" where
  "unpack_xyz a =
     (case a of
        Arr1 xs \<Rightarrow> (case xs of [x, y, z] \<Rightarrow> Inr (Single (x, y, z)) | _ \<Rightarrow> Inl ValueError)
      | Arr2 rows \<Rightarrow>
          (case rows of [xs, ys, zs] \<Rightarrow> Inr (Many (zip xs (zip ys zs))) | _ \<Rightarrow> Inl ValueError))"

definition unpack_XY :: "arr \<Rightarrow> error + (real \<times> real) batch" where
  "unpack_XY a =
     (case a of
        Arr1 xs \<Rightarrow> (case xs of [X, Y] \<Rightarrow> Inr (Single (X, Y)) | _ \<Rightarrow> Inl TypeError)
      | Arr2 rows \<Rightarrow>
          (case rows of [Xs, Ys] \<Rightarrow> Inr (Many (zip Xs Ys)) | _ \<Rightarrow> Inl TypeError))"

text \<open>The array numpy makes of a tuple of two, or of three, coordinate arrays.\<close>

fun array_of_XY :: "(real \<times> real) batch \<Rightarrow> arr" where
  "array_of_XY (Single p) = Arr1 [fst p, snd p]"
| "array_of_XY (Many ps) = Arr2 [map fst ps, map snd ps]"

fun array_of_xyz :: "vec batch \<Rightarrow> arr" where
  "array_of_xyz (Single v) = Arr1 (list_of_vec v)"
| "array_of_xyz (Many vs) = Arr2 [map vx vs, map vy vs, map vz vs]"

datatype projection_kind = EqualAngle | Orthographic | EqualArea

record projection =
  kind :: projection_kind
  rotation :: "(real \<times> real \<times> real) option"

text \<open>
  \<open>__init__\<close> stores \<open>R\<close> and its inverse \<open>I\<close>. The inverse is written with the
  adjugate; the determinant of a product of rotations is 1, so \<open>np.linalg.inv\<close> does
  not raise here.
\<close>

definition det3 :: "mat \<Rightarrow> real" where
  "det3 m = dot (fst m) (cross (fst (snd m)) (snd (snd m)))"

definition mat_inv :: "mat \<Rightarrow> mat" where
  "mat_inv m =
     (let a = fst m; b = fst (snd m); c = snd (snd m); d = det3 m
      in mat_transpose (vdiv (cross b c) d, vdiv (cross c a) d, vdiv (cross a b) d))"

definition proj_R :: "projection \<Rightarrow> mat" where
  "proj_R p =
     (case rotation p of
        Some (azim, plng, rake) \<Rightarrow> build_rotation_matrix azim plng rake
      | None \<Rightarrow> eye3)"

definition proj_I :: "projection \<Rightarrow> mat" where
  "proj_I p = (case rotation p of Some r \<Rightarrow> mat_inv (proj_R p) | None \<Rightarrow> eye3)"

text \<open>The arithmetic of \<open>_pre_direct\<close> on one point.\<close>

definition pre_point :: "bool \<Rightarrow> vec \<Rightarrow> vec" where
  "pre_point invert_positive v =
     (let x = vx v; y = vy v; z = vz v;
          d = 1 / sqrt (x * x + y * y + z * z)
      in if invert_positive then
           (let c = (if z > 0 then - 1 else 1) * d in (c * x, c * y, c * z))
         else (d * x, d * y, d * z))"

definition pre_direct :: "projection \<Rightarrow> arr \<Rightarrow> bool \<Rightarrow> bool \<Rightarrow> error + vec batch" where
  "pre_direct p data invert_positive rotate_on =
     (case np_transpose data of
        Inl e \<Rightarrow> Inl e
      | Inr t \<Rightarrow>
          (case (if rotate_on \<and> rotation p \<noteq> None then mat_dot (proj_R p) t else Inr t) of
             Inl e \<Rightarrow> Inl e
           | Inr a \<Rightarrow>
               (case unpack_xyz a of
                  Inl e \<Rightarrow> Inl e
                | Inr pts \<Rightarrow> Inr (batch_map (pre_point invert_positive) pts))))"

text \<open>The forward and inverse transforms of the three projections, on one point.\<close>

fun dtr :: "projection_kind \<Rightarrow> vec \<Rightarrow> real \<times> real" where
  "dtr EqualAngle (x, y, z) = (x / (1 - z), y / (1 - z))"
| "dtr Orthographic (x, y, z) = (x, y)"
| "dtr EqualArea (x, y, z) = (x * sqrt (1 / (1 - z)), y * sqrt (1 / (1 - z)))"

fun itr :: "projection_kind \<Rightarrow> real \<times> real \<Rightarrow> vec" where
  "itr EqualAngle (X, Y) =
     (2 * X / (1 + X * X + Y * Y),
      2 * Y / (1 + X * X + Y * Y),
      (- 1 + X * X + Y * Y) / (1 + X * X + Y * Y))"
| "itr Orthographic (X, Y) = (X, Y, sqrt (1 - X * X - Y * Y))"
| "itr EqualArea (X0, Y0) =
     (let X = X0 * sqrt 2; Y = Y0 * sqrt 2
      in (sqrt (1 - (X * X + Y * Y) / 4) * X,
          sqrt (1 - (X * X + Y * Y) / 4) * Y,
          - 1 + (X * X + Y * Y) / 2))"

text \<open>\<open>direct\<close> returns the tuple \<open>(X, Y)\<close> of coordinate arrays.\<close>

definition direct :: "projection \<Rightarrow> arr \<Rightarrow> bool \<Rightarrow> bool \<Rightarrow> error + (real \<times> real) batch" where
  "direct p data invert_positive rotate_on =
     (case pre_direct p data invert_positive rotate_on of
        Inl e \<Rightarrow> Inl e
      | Inr pts \<Rightarrow> Inr (batch_map (dtr (kind p)) pts))"

definition post_inverse :: "projection \<Rightarrow> arr \<Rightarrow> bool \<Rightarrow> error + arr" where
  "post_inverse p data rotate_on =
     (case (if rotate_on \<and> rotation p \<noteq> None then mat_dot (proj_I p) data else Inr data) of
        Inl e \<Rightarrow> Inl e
      | Inr a \<Rightarrow> np_transpose a)"

definition inverse_proj :: "projection \<Rightarrow> arr \<Rightarrow> bool \<Rightarrow> error + arr" where
  "inverse_proj p data rotate_on =
     (case np_transpose data of
        Inl e \<Rightarrow> Inl e
      | Inr t \<Rightarrow>
          (case unpack_XY t of
             Inl e \<Rightarrow> Inl e
           | Inr pts \<Rightarrow> post_inverse p (array_of_xyz (batch_map (itr (kind p)) pts)) rotate_on))"

section \<open>Joining segments\<close>

text \<open>The test \<open>abs(a.angle_with(b)) < c_tol\<close> of \<open>_join_segments\<close>.\<close>

definition facing :: "real \<Rightarrow> vec \<Rightarrow> vec \<Rightarrow> bool" where
  "facing c_tol a b = (\<bar>acos_angle a b\<bar> < c_tol)"

text \<open>
  The loop of \<open>_join_segments\<close>, on the flag \<open>all_joined\<close> and the list \<open>segments\<close>.
  Each round pops the first segment, compares it with the segment that is now first,
  merges the two when one of the four tests holds, and appends the result; indexing an
  empty segment raises \<open>IndexError\<close>.
\<close>

function (sequential) join_loop :: "real \<Rightarrow> bool \<Rightarrow> vec list list \<Rightarrow> error + vec list list" where
  "join_loop c_tol True segments = Inr segments"
| "join_loop c_tol False [] = Inr []"
| "join_loop c_tol False [s] = Inr [s]"
| "join_loop c_tol False (segment # segment_b # rest) =
     (if segment = [] \<or> segment_b = [] then Inl IndexError
      else if facing c_tol (last segment) (hd segment_b) then
        join_loop c_tol False (rest @ [segment @ segment_b])
      else if facing c_tol (hd segment) (last segment_b) then
        join_loop c_tol False (rest @ [segment_b @ segment])
      else if facing c_tol (last segment) (last segment_b) then
        join_loop c_tol False (rest @ [segment @ rev segment_b])
      else if facing c_tol (hd segment) (hd segment_b) then
        join_loop c_tol False (rest @ [segment_b @ rev segment])
      else join_loop c_tol True (segment_b # rest @ [segment]))"
  by pat_completeness auto
termination
  by (relation "measure (\<lambda>(c_tol, all_joined, segments).
        2 * length segments + (if all_joined then 0 else 1))") auto

definition join_segments :: "vec list list \<Rightarrow> real \<Rightarrow> error + vec list list" where
  "join_segments segments c_tol = join_loop c_tol False segments"

section \<open>Sampling\<close>

text \<open>
  The samplers draw from numpy's random generator. The draws are arguments of the model:
  \<open>theta_sample\<close> and \<open>alpha_sample\<close> are the \<open>n\<close> uniform and von Mises draws of
  \<open>sample_fisher\<close>, \<open>samples\<close> the \<open>n\<close> rows of normal draws of \<open>sample_uniform\<close>.
\<close>

definition sample_fisher :: "vec \<Rightarrow> real list \<Rightarrow> real list \<Rightarrow> vec list" where
  "sample_fisher mean_vector theta_sample alpha_sample =
     (let direction_vector = direction_vector mean_vector;
          dip_vector = dip_vector mean_vector
      in map (\<lambda>(t, a).
                vadd (vscale (vadd (vscale direction_vector (cos t)) (vscale dip_vector (sin t)))
                             (sin a))
                     (vscale mean_vector (cos a)))
             (zip theta_sample alpha_sample))"

definition sample_uniform :: "vec list \<Rightarrow> vec list" where
  "sample_uniform samples = map (\<lambda>s. vdiv s (vec_length s)) samples"

text \<open>
  When \<open>_join_segments\<close> stops without a merge, the four tests have just failed for the
  segment it popped and the segment then first: neither is empty and no pair of their
  facing endpoints is within the tolerance.
\<close>

definition unjoinable :: "real \<Rightarrow> vec list \<Rightarrow> vec list \<Rightarrow> bool" where
  "unjoinable c_tol s t =
     (s \<noteq> [] \<and> t \<noteq> []
      \<and> \<not> facing c_tol (last s) (hd t) \<and> \<not> facing c_tol (hd s) (last t)
      \<and> \<not> facing c_tol (last s) (last t) \<and> \<not> facing c_tol (hd s) (hd t))"

section \<open>Compositions named in the claims\<close>

text \<open>
  The specification words the preprocessing of \<open>direct\<close> as: rotate into the frame of
  the projection (when asked to and a rotation is set), replace a point with positive z
  by its antipode, normalize to unit length.
\<close>

definition in_frame :: "projection \<Rightarrow> bool \<Rightarrow> vec \<Rightarrow> vec" where
  "in_frame p rotate_on v =
     (if rotate_on \<and> rotation p \<noteq> None then mat_vec (proj_R p) v else v)"

definition lower_unit :: "vec \<Rightarrow> vec" where
  "lower_unit w =
     (if vz w > 0 then vneg (vdiv w (vec_length w)) else vdiv w (vec_length w))"

text \<open>
  \<open>projection.inverse(projection.direct(data, invert_positive=False))\<close>, the tuple
  returned by \<open>direct\<close> handed to \<open>inverse\<close> as it is; and the same with the tuple
  transposed first, \<open>projection.inverse(np.transpose(projection.direct(data,
  invert_positive=False)))\<close>, which hands \<open>inverse\<close> one row \<open>(X, Y)\<close> per point.
\<close>

definition round_trip :: "projection \<Rightarrow> arr \<Rightarrow> error + arr" where
  "round_trip p data =
     (case direct p data False True of
        Inl e \<Rightarrow> Inl e
      | Inr XY \<Rightarrow> inverse_proj p (array_of_XY XY) True)"

definition round_trip_rows :: "projection \<Rightarrow> arr \<Rightarrow> error + arr" where
  "round_trip_rows p data =
     (case direct p data False True of
        Inl e \<Rightarrow> Inl e
      | Inr XY \<Rightarrow>
          (case np_transpose (array_of_XY XY) of
             Inl e \<Rightarrow> Inl e
           | Inr rows \<Rightarrow> inverse_proj p rows True))"

section \<open>The rotation matrix as the specification words it\<close>

text \<open>
  The specification describes \<open>build_rotation_matrix\<close> as three elementary rotations,
  "rake about x, then plunge about x-rotated y, then azimuth about z". The elementary
  rotations about the three coordinate axes, in the sign convention of the program's own
  matrices, and the composition in the specification's words (the rotation applied first
  stands rightmost):
\<close>

definition spec_rot_x :: "real \<Rightarrow> mat" where
  "spec_rot_x t = ((1, 0, 0), (0, cos t, sin t), (0, - sin t, cos t))"

definition spec_rot_y :: "real \<Rightarrow> mat" where
  "spec_rot_y t = ((cos t, 0, sin t), (0, 1, 0), (- sin t, 0, cos t))"

definition spec_rot_z :: "real \<Rightarrow> mat" where
  "spec_rot_z t = ((cos t, sin t, 0), (- sin t, cos t, 0), (0, 0, 1))"

definition spec_rotation_matrix :: "real \<Rightarrow> real \<Rightarrow> real \<Rightarrow> mat" where
  "spec_rotation_matrix azim plng rake =
     mat_mul (mat_mul (spec_rot_z (radians azim)) (spec_rot_y (radians plng)))
             (spec_rot_x (radians rake))"

section \<open>Basic facts about vectors\<close>

lemma dot_self_nonneg: "0 \<le> dot v v"
  by (simp add: dot_def)

lemma dot_self_zero_iff: "dot v v = 0 \<longleftrightarrow> v = (0, 0, 0)"
proof
  assume h: "dot v v = 0"
  have "vx v * vx v + vy v * vy v + vz v * vz v = 0"
    using h by (simp add: dot_def)
  then have "vx v = 0 \<and> vy v = 0 \<and> vz v = 0"
    by (smt (verit) zero_le_square mult_eq_0_iff)
  then show "v = (0, 0, 0)"
    by (simp add: vx_def vy_def vz_def prod_eq_iff)
next
  assume "v = (0, 0, 0)"
  then show "dot v v = 0"
    by (simp add: dot_def vx_def vy_def vz_def)
qed

lemma dot_vdiv_self:
  assumes "0 < c"
  shows "dot (vdiv v c) (vdiv v c) = dot v v / (c * c)"
  using assms by (simp add: dot_def vdiv_def vx_def vy_def vz_def add_divide_distrib)

lemma dot_vneg_self: "dot (vneg v) (vneg v) = dot v v"
  by (simp add: dot_def vneg_def vx_def vy_def vz_def)

lemma normalized_cross_unit:
  assumes "cross a b \<noteq> (0, 0, 0)"
  shows "dot (normalized_cross a b) (normalized_cross a b) = 1"
proof -
  let ?c = "cross a b"
  have pos: "0 < dot ?c ?c"
    using assms dot_self_nonneg [of ?c] dot_self_zero_iff [of ?c] by linarith
  then have lpos: "0 < sqrt (dot ?c ?c)" by simp
  have "dot (vdiv ?c (sqrt (dot ?c ?c))) (vdiv ?c (sqrt (dot ?c ?c)))
        = dot ?c ?c / (sqrt (dot ?c ?c) * sqrt (dot ?c ?c))"
    by (rule dot_vdiv_self [OF lpos])
  also have "\<dots> = 1" using pos by simp
  finally show ?thesis using lpos by (simp add: normalized_cross_def Let_def)
qed

text \<open>Lagrange's identity, and what it says about two unit vectors.\<close>

lemma lagrange_identity:
  "dot (cross a b) (cross a b) = dot a a * dot b b - dot a b * dot a b"
  by (simp add: dot_def cross_def vx_def vy_def vz_def algebra_simps)

lemma unit_cross_zero:
  assumes "dot a a = 1" and "dot b b = 1" and "cross a b = (0, 0, 0)"
  shows "a = b \<or> a = vneg b"
proof -
  have "dot (cross a b) (cross a b) = 0"
    using assms(3) dot_self_zero_iff by simp
  then have sq: "dot a b * dot a b = 1"
    using lagrange_identity [of a b] assms(1,2) by simp
  then have "dot a b = 1 \<or> dot a b = - 1"
    by (metis mult_cancel_left1 mult_minus_left power2_eq_1_iff power2_eq_square)
  then show ?thesis
  proof
    assume d: "dot a b = 1"
    have "(vx a - vx b)\<^sup>2 + (vy a - vy b)\<^sup>2 + (vz a - vz b)\<^sup>2 = dot a a + dot b b - 2 * dot a b"
      by (simp add: dot_def power2_eq_square algebra_simps)
    also have "\<dots> = 0" using assms(1,2) d by simp
    finally have "vx a = vx b \<and> vy a = vy b \<and> vz a = vz b"
      by (smt (verit) zero_le_power2 zero_eq_power2)
    then have "a = b" by (simp add: vx_def vy_def vz_def prod_eq_iff)
    then show ?thesis ..
  next
    assume d: "dot a b = - 1"
    have "(vx a + vx b)\<^sup>2 + (vy a + vy b)\<^sup>2 + (vz a + vz b)\<^sup>2 = dot a a + dot b b + 2 * dot a b"
      by (simp add: dot_def power2_eq_square algebra_simps)
    also have "\<dots> = 0" using assms(1,2) d by simp
    finally have "vx a = - vx b \<and> vy a = - vy b \<and> vz a = - vz b"
      by (smt (verit) zero_le_power2 zero_eq_power2)
    then have "a = vneg b" by (simp add: vneg_def vx_def vy_def vz_def prod_eq_iff)
    then show ?thesis ..
  qed
qed

lemma vec_length_unit_iff: "vec_length v = 1 \<longleftrightarrow> dot v v = 1"
  by (simp add: vec_length_def)

lemma oriented_row_props:
  assumes "vec_length a = 1" and "vec_length b = 1" and "a \<noteq> b" and "a \<noteq> vneg b"
  shows "vec_length (oriented_row a b) = 1 \<and> vz (oriented_row a b) \<le> 0"
proof -
  have nz: "cross a b \<noteq> (0, 0, 0)"
    using unit_cross_zero [of a b] assms by (auto simp: vec_length_unit_iff)
  have u: "dot (normalized_cross a b) (normalized_cross a b) = 1"
    by (rule normalized_cross_unit [OF nz])
  show ?thesis
  proof (cases "vz (normalized_cross a b) < 0")
    case True
    then show ?thesis using u by (simp add: oriented_row_def Let_def vec_length_unit_iff)
  next
    case False
    then have "vz (vneg (normalized_cross a b)) \<le> 0"
      by (simp add: vneg_def vz_def)
    then show ?thesis
      using False u by (simp add: oriented_row_def Let_def vec_length_unit_iff dot_vneg_self)
  qed
qed

section \<open>Matrices: products, transposes, rotations\<close>

lemma mat_mul_tuple:
  "mat_mul ((a11, a12, a13), (a21, a22, a23), (a31, a32, a33))
           ((b11, b12, b13), (b21, b22, b23), (b31, b32, b33)) =
   ((a11 * b11 + a12 * b21 + a13 * b31, a11 * b12 + a12 * b22 + a13 * b32,
     a11 * b13 + a12 * b23 + a13 * b33),
    (a21 * b11 + a22 * b21 + a23 * b31, a21 * b12 + a22 * b22 + a23 * b32,
     a21 * b13 + a22 * b23 + a23 * b33),
    (a31 * b11 + a32 * b21 + a33 * b31, a31 * b12 + a32 * b22 + a33 * b32,
     a31 * b13 + a32 * b23 + a33 * b33))"
  by (simp add: mat_mul_def mat_col_def list_of_vec_def Let_def vx_def vy_def vz_def dot_def)

lemma mat_transpose_tuple:
  "mat_transpose ((a11, a12, a13), (a21, a22, a23), (a31, a32, a33)) =
   ((a11, a21, a31), (a12, a22, a32), (a13, a23, a33))"
  by (simp add: mat_transpose_def mat_col_def list_of_vec_def vx_def vy_def vz_def)

lemma mat_cases:
  obtains a11 a12 a13 a21 a22 a23 a31 a32 a33
  where "(m :: mat) = ((a11, a12, a13), (a21, a22, a23), (a31, a32, a33))"
  by (metis prod_cases3)

lemma mat_mul_assoc: "mat_mul (mat_mul a b) c = mat_mul a (mat_mul b c)"
proof -
  obtain a11 a12 a13 a21 a22 a23 a31 a32 a33
    where a: "a = ((a11, a12, a13), (a21, a22, a23), (a31, a32, a33))"
    by (rule mat_cases)
  obtain b11 b12 b13 b21 b22 b23 b31 b32 b33
    where b: "b = ((b11, b12, b13), (b21, b22, b23), (b31, b32, b33))"
    by (rule mat_cases)
  obtain c11 c12 c13 c21 c22 c23 c31 c32 c33
    where c: "c = ((c11, c12, c13), (c21, c22, c23), (c31, c32, c33))"
    by (rule mat_cases)
  show ?thesis unfolding a b c mat_mul_tuple by (simp add: algebra_simps)
qed

lemma mat_transpose_mul:
  "mat_transpose (mat_mul a b) = mat_mul (mat_transpose b) (mat_transpose a)"
proof -
  obtain a11 a12 a13 a21 a22 a23 a31 a32 a33
    where a: "a = ((a11, a12, a13), (a21, a22, a23), (a31, a32, a33))"
    by (rule mat_cases)
  obtain b11 b12 b13 b21 b22 b23 b31 b32 b33
    where b: "b = ((b11, b12, b13), (b21, b22, b23), (b31, b32, b33))"
    by (rule mat_cases)
  show ?thesis unfolding a b mat_mul_tuple mat_transpose_tuple by (simp add: algebra_simps)
qed

lemma mat_mul_eye_left: "mat_mul eye3 a = a"
proof -
  obtain a11 a12 a13 a21 a22 a23 a31 a32 a33
    where a: "a = ((a11, a12, a13), (a21, a22, a23), (a31, a32, a33))"
    by (rule mat_cases)
  show ?thesis unfolding a eye3_def mat_mul_tuple by simp
qed

lemma sin_cos_sq:
  "cos t * cos t + sin t * sin t = (1::real)" "sin t * sin t + cos t * cos t = (1::real)"
  using sin_cos_squared_add [of t] by (simp_all add: power2_eq_square add.commute)

lemma R1_orthogonal:
  "mat_mul (R1 t) (mat_transpose (R1 t)) = eye3" "mat_mul (mat_transpose (R1 t)) (R1 t) = eye3"
  by (simp_all add: R1_def eye3_def mat_mul_tuple mat_transpose_tuple sin_cos_sq)

lemma R2_orthogonal:
  "mat_mul (R2 t) (mat_transpose (R2 t)) = eye3" "mat_mul (mat_transpose (R2 t)) (R2 t) = eye3"
  by (simp_all add: R2_def eye3_def mat_mul_tuple mat_transpose_tuple sin_cos_sq)

lemma R3_orthogonal:
  "mat_mul (R3 t) (mat_transpose (R3 t)) = eye3" "mat_mul (mat_transpose (R3 t)) (R3 t) = eye3"
  by (simp_all add: R3_def eye3_def mat_mul_tuple mat_transpose_tuple sin_cos_sq)

lemma orthogonal_mul_right:
  assumes "mat_mul a (mat_transpose a) = eye3" and "mat_mul b (mat_transpose b) = eye3"
  shows "mat_mul (mat_mul a b) (mat_transpose (mat_mul a b)) = eye3"
proof -
  have "mat_mul (mat_mul a b) (mat_transpose (mat_mul a b))
      = mat_mul a (mat_mul (mat_mul b (mat_transpose b)) (mat_transpose a))"
    by (simp add: mat_transpose_mul mat_mul_assoc)
  then show ?thesis using assms by (simp add: mat_mul_eye_left)
qed

lemma orthogonal_mul_left:
  assumes "mat_mul (mat_transpose a) a = eye3" and "mat_mul (mat_transpose b) b = eye3"
  shows "mat_mul (mat_transpose (mat_mul a b)) (mat_mul a b) = eye3"
proof -
  have "mat_mul (mat_transpose (mat_mul a b)) (mat_mul a b)
      = mat_mul (mat_transpose b) (mat_mul (mat_mul (mat_transpose a) a) b)"
    by (simp add: mat_transpose_mul mat_mul_assoc)
  then show ?thesis using assms by (simp add: mat_mul_eye_left)
qed

lemma build_rotation_matrix_orthogonal:
  "mat_mul (build_rotation_matrix azim plng rake)
           (mat_transpose (build_rotation_matrix azim plng rake)) = eye3"
  "mat_mul (mat_transpose (build_rotation_matrix azim plng rake))
           (build_rotation_matrix azim plng rake) = eye3"
  unfolding build_rotation_matrix_def
  by (intro orthogonal_mul_right orthogonal_mul_left R1_orthogonal R2_orthogonal R3_orthogonal)+

section \<open>Circles, arcs and samples on the unit sphere\<close>

lemmas vsimps = vx_def vy_def vz_def dot_def

lemma dot_comb_self:
  "dot (vadd (vscale u c) (vscale w s)) (vadd (vscale u c) (vscale w s))
   = c * c * dot u u + 2 * c * s * dot u w + s * s * dot w w"
  by (simp add: vadd_def vscale_def vsimps algebra_simps)

lemma dot_comb_right:
  "dot a (vadd (vscale u c) (vscale w s)) = c * dot a u + s * dot a w"
  by (simp add: vadd_def vscale_def vsimps algebra_simps)

lemma orthonormal_comb_unit:
  assumes "dot u u = 1" and "dot w w = 1" and "dot u w = 0"
  shows "dot (vadd (vscale u (cos t)) (vscale w (sin t))) (vadd (vscale u (cos t)) (vscale w (sin t))) = 1"
  using assms by (simp add: dot_comb_self sin_cos_sq)

lemma orthonormal_comb_unit':
  assumes "dot u u = 1" and "dot w w = 1" and "dot u w = 0"
  shows "dot (vadd (vscale u (sin t)) (vscale w (cos t))) (vadd (vscale u (sin t)) (vscale w (cos t))) = 1"
  using assms sin_cos_sq [of t] by (simp add: dot_comb_self)

lemma dot_cross_left: "dot a (cross a b) = 0"
  by (simp add: cross_def vsimps algebra_simps)

lemma dot_cross_right: "dot b (cross a b) = 0"
  by (simp add: cross_def vsimps algebra_simps)

lemma dot_commute: "dot a b = dot b a"
  by (simp add: vsimps algebra_simps)

lemma vdiv_one: "vdiv v 1 = v"
  by (simp add: vdiv_def vsimps)

lemma direction_vector_unit:
  assumes "dot a a = 1"
  shows "dot (direction_vector a) (direction_vector a) = 1 \<and> dot a (direction_vector a) = 0"
proof (cases "\<bar>vz a\<bar> = 1")
  case True
  then have "vz a * vz a = 1"
    by (metis abs_mult_self_eq mult_1)
  then have "vx a * vx a + vy a * vy a = 0"
    using assms by (simp add: dot_def)
  then have "vx a = 0"
    by (smt (verit) zero_le_square mult_eq_0_iff)
  then show ?thesis using True by (simp add: direction_vector_def vsimps)
next
  case False
  have "vx a * vx a + vy a * vy a + vz a * vz a = 1"
    using assms by (simp add: dot_def)
  then have le: "vz a * vz a \<le> 1"
    using zero_le_square [of "vx a"] zero_le_square [of "vy a"] by linarith
  have "vz a * vz a \<noteq> 1"
    using False by (metis abs_mult_self_eq abs_1 real_sqrt_abs2 real_sqrt_one power2_eq_square real_sqrt_abs)
  then have pos: "0 < vy a * vy a + vx a * vx a"
    using le assms by (simp add: dot_def)
  define r where "r = sqrt (vy a * vy a + vx a * vx a)"
  have rpos: "0 < r" using pos by (simp add: r_def)
  have rr: "r * r = vy a * vy a + vx a * vx a" using pos by (simp add: r_def)
  have d: "direction_vector a = (vy a / r, - vx a / r, 0)"
    using False by (simp add: direction_vector_def Let_def vec_length_def vdiv_def r_def vsimps)
  have "dot (direction_vector a) (direction_vector a) = (vy a * vy a + vx a * vx a) / (r * r)"
    unfolding d by (simp add: vsimps add_divide_distrib)
  also have "\<dots> = 1"
    unfolding rr using pos by (intro divide_self) linarith
  finally have 1: "dot (direction_vector a) (direction_vector a) = 1" .
  have 2: "dot a (direction_vector a) = 0"
    unfolding d by (simp add: vsimps)
  show ?thesis using 1 2 by simp
qed

lemma dip_vector_unit:
  assumes "dot a a = 1"
  shows "dot (dip_vector a) (dip_vector a) = 1 \<and> dot a (dip_vector a) = 0
         \<and> dot (direction_vector a) (dip_vector a) = 0"
proof -
  have l: "vec_length a = 1" using assms by (simp add: vec_length_def)
  have e: "dip_vector a = cross a (direction_vector a)"
    by (simp add: dip_vector_def l vdiv_one)
  show ?thesis
    unfolding e using direction_vector_unit [OF assms]
    by (simp add: lagrange_identity assms dot_cross_left dot_cross_right)
qed


lemma gc_comb_unit:
  assumes "dot a a = 1"
  shows "dot (vadd (vscale (direction_vector a) (cos t)) (vscale (dip_vector a) (sin t)))
             (vadd (vscale (direction_vector a) (cos t)) (vscale (dip_vector a) (sin t))) = 1
       \<and> dot a (vadd (vscale (direction_vector a) (cos t)) (vscale (dip_vector a) (sin t))) = 0"
proof -
  have d: "dot (direction_vector a) (direction_vector a) = 1" "dot a (direction_vector a) = 0"
    using direction_vector_unit [OF assms] by simp_all
  have p: "dot (dip_vector a) (dip_vector a) = 1" "dot a (dip_vector a) = 0"
    "dot (direction_vector a) (dip_vector a) = 0"
    using dip_vector_unit [OF assms] by simp_all
  show ?thesis
    using orthonormal_comb_unit [OF d(1) p(1) p(3), of t] by (simp add: dot_comb_right d p)
qed

lemma sc_comb_unit:
  assumes "dot a a = 1" and "dot g g = 1" and "dot a g = 0"
  shows "dot (vadd (vscale g (sin al)) (vscale a (cos al)))
             (vadd (vscale g (sin al)) (vscale a (cos al))) = 1
       \<and> dot a (vadd (vscale g (sin al)) (vscale a (cos al))) = cos al"
proof -
  have ga: "dot g a = 0" using assms(3) by (simp add: dot_commute)
  show ?thesis
    using orthonormal_comb_unit' [OF assms(2) assms(1) ga, of al]
    by (simp add: dot_comb_right assms)
qed

lemma get_great_circle_returns:
  "step \<noteq> 0 \<Longrightarrow> \<exists>ps. get_great_circle a step offset = Inr ps
                       \<and> length ps = nat \<lceil>2 * pi / step\<rceil>"
  by (simp add: get_great_circle_def arange_def)

lemma get_great_circle_point:
  assumes "dot a a = 1" and "get_great_circle a step offset = Inr ps" and "p \<in> set ps"
  shows "dot p p = 1 \<and> dot a p = 0"
proof -
  obtain t where "p = vadd (vscale (direction_vector a) (cos t)) (vscale (dip_vector a) (sin t))"
    using assms(2,3) by (auto simp: get_great_circle_def arange_def split: if_splits)
  then show ?thesis using gc_comb_unit [OF assms(1), of t] by simp
qed

lemma vec_length_vneg: "vec_length (vneg v) = vec_length v"
  by (simp add: vec_length_def vneg_def vsimps)

lemma get_small_circle_returns:
  "step \<noteq> 0 \<Longrightarrow> \<exists>up. get_small_circle a al A B step offset = Inr (up, map vneg up)"
proof -
  assume s: "step \<noteq> 0"
  obtain ps where ps: "get_great_circle a step offset = Inr ps"
    using get_great_circle_returns [OF s] by blast
  obtain qs where qs: "get_great_circle a step 0 = Inr qs"
    using get_great_circle_returns [OF s] by blast
  show ?thesis
    using s ps qs by (simp add: get_small_circle_def arange_def Let_def)
qed

lemma get_small_circle_point:
  assumes "dot a a = 1" and "get_small_circle a al A B step offset = Inr (up, lo)" and "p \<in> set up"
  shows "dot p p = 1"
proof (cases "A = 0 \<and> B = 0")
  case True
  then obtain gc where gc: "get_great_circle a step offset = Inr gc"
    and up: "up = map (\<lambda>g. vadd (vscale g (sin al)) (vscale a (cos al))) gc"
    using assms(2) by (auto simp: get_small_circle_def Let_def split: sum.splits)
  then obtain g where g: "g \<in> set gc" and p: "p = vadd (vscale g (sin al)) (vscale a (cos al))"
    using assms(3) by auto
  show ?thesis
    unfolding p using sc_comb_unit [OF assms(1)] get_great_circle_point [OF assms(1) gc g] by simp
next
  case False
  then obtain gc als where gc: "get_great_circle a step 0 = Inr gc"
    and up: "up = map (\<lambda>(g, x). vadd (vscale g (sin x)) (vscale a (cos x))) (zip gc als)"
    using assms(2) by (auto simp: get_small_circle_def Let_def split: sum.splits)
  then obtain g x where g: "g \<in> set gc" and p: "p = vadd (vscale g (sin x)) (vscale a (cos x))"
    using assms(3) by (auto dest: set_zip_leftD)
  show ?thesis
    unfolding p using sc_comb_unit [OF assms(1)] get_great_circle_point [OF assms(1) gc g] by simp
qed

lemma acos_angle_small_circle:
  assumes "dot a a = 1" and "dot p p = 1" and "dot a p = cos al" and "0 \<le> al" and "al \<le> pi"
  shows "acos_angle a p = al"
  using assms by (simp add: acos_angle_def vec_length_def np_clip_def arccos_cos)

lemma dot_vdiv_right: "dot a (vdiv v c) = dot a v / c"
  by (simp add: dot_def vdiv_def vx_def vy_def vz_def add_divide_distrib)

lemma rejection_apply:
  "mat_vec (rejection_matrix a) b =
   (vx b - vx a * dot a b, vy b - vy a * dot a b, vz b - vz a * dot a b)"
  by (simp add: mat_vec_def rejection_matrix_def mat_sub_def eye3_def projection_matrix_def
      vscale_def vadd_def vneg_def vsimps algebra_simps)

lemma rejection_norm:
  assumes "dot a a = 1"
  shows "dot (mat_vec (rejection_matrix a) b) (mat_vec (rejection_matrix a) b)
         = dot (cross a b) (cross a b)"
    and "dot a (mat_vec (rejection_matrix a) b) = 0"
proof -
  have "dot (mat_vec (rejection_matrix a) b) (mat_vec (rejection_matrix a) b)
        = dot b b - 2 * (dot a b * dot a b) + dot a b * dot a b * dot a a"
    unfolding rejection_apply by (simp add: vsimps algebra_simps)
  then show "dot (mat_vec (rejection_matrix a) b) (mat_vec (rejection_matrix a) b)
         = dot (cross a b) (cross a b)"
    using assms by (simp add: lagrange_identity)
  have "dot a (mat_vec (rejection_matrix a) b) = dot a b - dot a a * dot a b"
    unfolding rejection_apply by (simp add: vsimps algebra_simps)
  then show "dot a (mat_vec (rejection_matrix a) b) = 0"
    using assms by simp
qed

lemma arc_to_returns:
  "step \<noteq> 0 \<Longrightarrow> \<exists>ps. arc_to a b step = Inr ps"
  by (simp add: arc_to_def angle_with_def arange_def Let_def)

lemma arc_to_point:
  assumes "dot a a = 1" and "cross a b \<noteq> (0, 0, 0)" and "arc_to a b step = Inr ps" and "p \<in> set ps"
  shows "dot p p = 1"
proof -
  let ?rej = "mat_vec (rejection_matrix a) b"
  let ?n = "vdiv ?rej (sqrt (dot ?rej ?rej))"
  have pos: "0 < dot ?rej ?rej"
    using rejection_norm(1) [OF assms(1), of b] assms(2)
      dot_self_nonneg [of "cross a b"] dot_self_zero_iff [of "cross a b"] by linarith
  then have lpos: "0 < sqrt (dot ?rej ?rej)" by simp
  have "dot ?n ?n = dot ?rej ?rej / (sqrt (dot ?rej ?rej) * sqrt (dot ?rej ?rej))"
    by (rule dot_vdiv_self [OF lpos])
  also have "\<dots> = 1" using pos by simp
  finally have n1: "dot ?n ?n = 1" .
  have n2: "dot a ?n = 0"
    by (simp add: dot_vdiv_right rejection_norm(2) [OF assms(1)])
  obtain t where "p = vadd (vscale a (cos t)) (vscale ?n (sin t))"
    using assms(3,4) by (auto simp: arc_to_def angle_with_def arange_def Let_def split: if_splits)
  then show ?thesis
    using orthonormal_comb_unit [OF assms(1) n1 n2, of t] by simp
qed

lemma sample_uniform_point:
  assumes "s \<noteq> (0, 0, 0)"
  shows "dot (vdiv s (vec_length s)) (vdiv s (vec_length s)) = 1"
proof -
  have pos: "0 < dot s s"
    using assms dot_self_nonneg [of s] dot_self_zero_iff [of s] by linarith
  then have lpos: "0 < vec_length s" by (simp add: vec_length_def)
  have "dot (vdiv s (vec_length s)) (vdiv s (vec_length s)) = dot s s / (vec_length s * vec_length s)"
    by (rule dot_vdiv_self [OF lpos])
  also have "\<dots> = 1" using pos by (simp add: vec_length_def)
  finally show ?thesis .
qed

lemma sample_fisher_point:
  assumes "dot m m = 1" and "p \<in> set (sample_fisher m ths als)"
  shows "dot p p = 1"
proof -
  obtain t x where "p = vadd (vscale (vadd (vscale (direction_vector m) (cos t)) (vscale (dip_vector m) (sin t))) (sin x)) (vscale m (cos x))"
    using assms(2) by (auto simp: sample_fisher_def Let_def)
  then show ?thesis
    using sc_comb_unit [OF assms(1)] gc_comb_unit [OF assms(1), of t] by simp
qed

section \<open>The joining loop\<close>

lemma join_loop_last_first:
  "join_loop c_tol aj segs = Inr res \<Longrightarrow> \<not> aj \<Longrightarrow> 2 \<le> length res \<Longrightarrow>
   unjoinable c_tol (last res) (hd res)"
proof (induction c_tol aj segs rule: join_loop.induct)
  case (4 c_tol segment segment_b rest)
  then show ?case
    by (auto simp: unjoinable_def split: if_splits)
qed auto

lemma join_loop_total:
  "\<forall>s \<in> set segs. s \<noteq> [] \<Longrightarrow> \<exists>res. join_loop c_tol aj segs = Inr res"
proof (induction c_tol aj segs rule: join_loop.induct)
  case (4 c_tol segment segment_b rest)
  then show ?case by auto
qed auto

lemma join_loop_length:
  "join_loop c_tol aj segs = Inr res \<Longrightarrow> length res \<le> length segs"
proof (induction c_tol aj segs arbitrary: res rule: join_loop.induct)
  case (4 c_tol segment segment_b rest)
  then show ?case by (fastforce split: if_splits)
qed auto

section \<open>Arrays of points and the preprocessing of \<open>direct\<close>\<close>

lemma vec_eta: "(vx v, vy v, vz v) = v"
  by (simp add: vx_def vy_def vz_def)

lemma zip_coords: "zip (map vx pts) (zip (map vy pts) (map vz pts)) = pts"
  by (induction pts) (simp_all add: vec_eta)

lemma zip_coords_map:
  "zip (map (\<lambda>x. vx (f x)) pts) (zip (map (\<lambda>x. vy (f x)) pts) (map (\<lambda>x. vz (f x)) pts))
   = map f pts"
  by (induction pts) (simp_all add: vec_eta)

lemma map_upt_3: "map f [0..<3] = [f 0, f 1, f 2]"
  by (simp add: upt_rec numeral_3_eq_3 numeral_2_eq_2)

lemma rectangular_points: "rectangular (map list_of_vec pts)"
  unfolding rectangular_def list_all_iff by (cases pts) (auto simp: list_of_vec_def)

lemma list_of_vec_nth:
  "length (list_of_vec v) = 3" "list_of_vec v ! 0 = vx v" "list_of_vec v ! Suc 0 = vy v"
  "list_of_vec v ! 2 = vz v"
  by (simp_all add: list_of_vec_def numeral_2_eq_2)

lemma np_transpose_points:
  "pts \<noteq> [] \<Longrightarrow>
   np_transpose (Arr2 (map list_of_vec pts)) = Inr (Arr2 [map vx pts, map vy pts, map vz pts])"
  by (simp add: np_transpose_def rectangular_points map_upt_3 list_of_vec_nth hd_map comp_def)

lemma vz_vneg: "vz (vneg v) = - vz v"
  by (simp add: vneg_def vz_def)

lemma vz_vdiv: "vz (vdiv v c) = vz v / c"
  by (simp add: vdiv_def vz_def)

lemma pre_point_lower_unit: "pre_point True w = lower_unit w"
  by (simp add: pre_point_def lower_unit_def Let_def vec_length_def dot_def vneg_def vdiv_def
      vx_def vy_def vz_def)

lemma pre_point_normalize: "pre_point False w = vdiv w (vec_length w)"
  by (simp add: pre_point_def Let_def vec_length_def dot_def vdiv_def vx_def vy_def vz_def)

lemma pre_direct_points:
  "pts \<noteq> [] \<Longrightarrow>
   pre_direct p (Arr2 (map list_of_vec pts)) invert_positive rotate_on =
     Inr (Many (map (\<lambda>v. pre_point invert_positive (in_frame p rotate_on v)) pts))"
  by (auto simp add: pre_direct_def np_transpose_points mat_dot_def unpack_xyz_def zip_coords
      zip_coords_map in_frame_def Let_def comp_def vec_eta)

lemma pre_direct_point:
  "pre_direct p (Arr1 (list_of_vec v)) invert_positive rotate_on =
     Inr (Single (pre_point invert_positive (in_frame p rotate_on v)))"
  by (auto simp add: pre_direct_def np_transpose_def mat_dot_def unpack_xyz_def list_of_vec_def
      in_frame_def vec_eta)

lemma lower_unit_props:
  assumes "w \<noteq> (0, 0, 0)"
  shows "vec_length (lower_unit w) = 1 \<and> vz (lower_unit w) \<le> 0"
proof -
  have pos: "0 < dot w w"
    using assms dot_self_nonneg [of w] dot_self_zero_iff [of w] by linarith
  then have lpos: "0 < vec_length w" by (simp add: vec_length_def)
  have "dot (vdiv w (vec_length w)) (vdiv w (vec_length w)) = dot w w / (vec_length w * vec_length w)"
    by (rule dot_vdiv_self [OF lpos])
  also have "\<dots> = 1" using pos by (simp add: vec_length_def)
  finally have u: "dot (vdiv w (vec_length w)) (vdiv w (vec_length w)) = 1" .
  show ?thesis
  proof (cases "vz w > 0")
    case True
    then have "0 < vz w / vec_length w" using lpos by simp
    then show ?thesis
      using True u by (simp add: lower_unit_def vec_length_unit_iff dot_vneg_self vz_vneg vz_vdiv)
  next
    case False
    then have "vz w / vec_length w \<le> 0" using lpos by (simp add: divide_le_0_iff)
    then show ?thesis
      using False u by (simp add: lower_unit_def vec_length_unit_iff vz_vdiv)
  qed
qed

lemma mat_vec_tuple:
  "mat_vec ((a11, a12, a13), (a21, a22, a23), (a31, a32, a33)) (x, y, z) =
   (a11 * x + a12 * y + a13 * z, a21 * x + a22 * y + a23 * z, a31 * x + a32 * y + a33 * z)"
  by (simp add: mat_vec_def dot_def vx_def vy_def vz_def)

lemma dot_mat_vec:
  "dot (mat_vec m v) (mat_vec m v) = dot v (mat_vec (mat_mul (mat_transpose m) m) v)"
proof -
  obtain a11 a12 a13 a21 a22 a23 a31 a32 a33
    where m: "m = ((a11, a12, a13), (a21, a22, a23), (a31, a32, a33))"
    by (rule mat_cases)
  obtain x y z where v: "v = (x, y, z)" by (rule prod_cases3)
  show ?thesis
    unfolding m v mat_transpose_tuple mat_mul_tuple mat_vec_tuple
    by (simp add: dot_def vx_def vy_def vz_def algebra_simps)
qed

lemma mat_vec_eye3: "mat_vec eye3 v = v"
  by (simp add: mat_vec_def eye3_def dot_def vx_def vy_def vz_def)

lemma proj_R_orthogonal: "mat_mul (mat_transpose (proj_R p)) (proj_R p) = eye3"
  by (auto simp: proj_R_def build_rotation_matrix_orthogonal eye3_def mat_mul_tuple
      mat_transpose_tuple split: option.splits)

lemma in_frame_norm: "dot (in_frame p rotate_on v) (in_frame p rotate_on v) = dot v v"
  by (simp add: in_frame_def dot_mat_vec proj_R_orthogonal mat_vec_eye3)

lemma in_frame_nonzero: "v \<noteq> (0, 0, 0) \<Longrightarrow> in_frame p rotate_on v \<noteq> (0, 0, 0)"
  using in_frame_norm [of p rotate_on v] dot_self_zero_iff [of v]
    dot_self_zero_iff [of "in_frame p rotate_on v"] by simp

section \<open>Forward and inverse transforms\<close>

lemma unit_coords:
  assumes "vec_length v = 1"
  shows "vx v * vx v + vy v * vy v + vz v * vz v = 1"
  using assms by (simp add: vec_length_def dot_def)

lemma pre_point_unit:
  assumes "vec_length v = 1"
  shows "pre_point False v = v"
  using unit_coords [OF assms] by (simp add: pre_point_def Let_def vec_eta)

lemma itr_dtr_EqualAngle:
  assumes "vec_length v = 1" and "vz v < 1"
  shows "itr EqualAngle (dtr EqualAngle v) = v"
proof -
  obtain x y z where v: "v = (x, y, z)" by (rule prod_cases3)
  have u: "x * x + y * y + z * z = 1"
    using unit_coords [OF assms(1)] by (simp add: v vx_def vy_def vz_def)
  define w where "w = 1 - z"
  have wpos: "0 < w" using assms(2) by (simp add: w_def v vz_def)
  have xy: "x * x + y * y = w * (2 - w)"
    using u by (simp add: w_def algebra_simps)
  have "1 + x / w * (x / w) + y / w * (y / w) = 1 + (x * x + y * y) / (w * w)"
    by (simp add: add_divide_distrib)
  also have "\<dots> = 1 + (2 - w) / w"
    unfolding xy using wpos by simp
  also have "\<dots> = 2 / w"
    using wpos by (simp add: field_simps)
  finally have s: "1 + x / w * (x / w) + y / w * (y / w) = 2 / w" .
  have s': "- 1 + x / w * (x / w) + y / w * (y / w) = 2 / w - 2"
    using s by simp
  have "itr EqualAngle (dtr EqualAngle (x, y, z)) = (2 * (x / w) / (2 / w), 2 * (y / w) / (2 / w), (2 / w - 2) / (2 / w))"
    using s s' by (simp add: w_def)
  also have "\<dots> = (x, y, z)"
    using wpos by (simp add: w_def field_simps)
  finally show ?thesis by (simp add: v)
qed

lemma itr_dtr_EqualArea:
  assumes "vec_length v = 1" and "vz v < 1"
  shows "itr EqualArea (dtr EqualArea v) = v"
proof -
  obtain x y z where v: "v = (x, y, z)" by (rule prod_cases3)
  have u: "x * x + y * y + z * z = 1"
    using unit_coords [OF assms(1)] by (simp add: v vx_def vy_def vz_def)
  define w where "w = 1 - z"
  have wpos: "0 < w" using assms(2) by (simp add: w_def v vz_def)
  have xy: "x * x + y * y = w * (2 - w)"
    using u by (simp add: w_def algebra_simps)
  define r where "r = sqrt (1 / w)"
  have rr: "r * r = 1 / w" using wpos by (simp add: r_def)
  define X where "X = x * r * sqrt 2"
  define Y where "Y = y * r * sqrt 2"
  have "X * X + Y * Y = (x * x + y * y) * (r * r) * (sqrt 2 * sqrt 2)"
    by (simp add: X_def Y_def algebra_simps)
  also have "\<dots> = 2 * (2 - w)"
    unfolding xy rr using wpos by simp
  finally have q: "X * X + Y * Y = 2 * (2 - w)" .
  have h: "1 - (X * X + Y * Y) / 4 = w / 2" unfolding q by (simp add: field_simps)
  have "sqrt (w / 2) * r * sqrt 2 = sqrt (w / 2 * (1 / w) * 2)"
    unfolding r_def by (simp only: real_sqrt_mult)
  also have "\<dots> = 1" using wpos by simp
  finally have one: "sqrt (w / 2) * r * sqrt 2 = 1" .
  have ex: "sqrt (w / 2) * X = x"
  proof -
    have "sqrt (w / 2) * X = x * (sqrt (w / 2) * r * sqrt 2)" by (simp add: X_def)
    then show ?thesis unfolding one by simp
  qed
  have ey: "sqrt (w / 2) * Y = y"
  proof -
    have "sqrt (w / 2) * Y = y * (sqrt (w / 2) * r * sqrt 2)" by (simp add: Y_def)
    then show ?thesis unfolding one by simp
  qed
  have ez: "- 1 + (X * X + Y * Y) / 2 = z" unfolding q by (simp add: w_def field_simps)
  have "itr EqualArea (dtr EqualArea (x, y, z)) =
        (sqrt (1 - (X * X + Y * Y) / 4) * X, sqrt (1 - (X * X + Y * Y) / 4) * Y,
         - 1 + (X * X + Y * Y) / 2)"
    by (simp add: Let_def X_def Y_def r_def w_def)
  also have "\<dots> = (x, y, z)"
    unfolding h ez by (simp add: ex ey)
  finally show ?thesis by (simp add: v)
qed

lemma itr_dtr_Orthographic:
  assumes "vec_length v = 1" and "vz v \<le> 0"
  shows "itr Orthographic (dtr Orthographic v) = (vx v, vy v, - vz v)"
proof -
  obtain x y z where v: "v = (x, y, z)" by (rule prod_cases3)
  have u: "x * x + y * y + z * z = 1"
    using unit_coords [OF assms(1)] by (simp add: v vx_def vy_def vz_def)
  have z: "z \<le> 0" using assms(2) by (simp add: v vz_def)
  have "1 - x * x - y * y = z * z" using u by simp
  then have "sqrt (1 - x * x - y * y) = \<bar>z\<bar>" by simp
  then show ?thesis using z by (simp add: v vx_def vy_def vz_def)
qed

lemma direct_point:
  assumes "vec_length v = 1" and "rotation p = None"
  shows "direct p (Arr1 (list_of_vec v)) False True = Inr (Single (dtr (kind p) v))"
  using assms by (simp add: direct_def pre_direct_point in_frame_def pre_point_unit)

lemma direct_row:
  assumes "vec_length v = 1" and "rotation p = None"
  shows "direct p (Arr2 [list_of_vec v]) False True = Inr (Many [dtr (kind p) v])"
  using assms pre_direct_points [of "[v]" p False True]
  by (simp add: direct_def in_frame_def pre_point_unit)

lemma map_upt_2: "map f [0..<2] = [f 0, f 1]"
  by (simp add: upt_rec numeral_2_eq_2)

lemma inverse_proj_point:
  assumes "rotation p = None"
  shows "inverse_proj p (Arr1 [X, Y]) True = Inr (Arr1 (list_of_vec (itr (kind p) (X, Y))))"
  using assms by (simp add: inverse_proj_def np_transpose_def unpack_XY_def post_inverse_def)

lemma inverse_proj_row:
  assumes "rotation p = None"
  shows "inverse_proj p (Arr2 [[X, Y]]) True = Inr (Arr2 [list_of_vec (itr (kind p) (X, Y))])"
  using assms
  by (simp add: inverse_proj_def np_transpose_def unpack_XY_def post_inverse_def
      rectangular_def map_upt_2 list_of_vec_def)

lemma inverse_proj_columns_of_one:
  "inverse_proj p (Arr2 [[X], [Y]]) rotate_on = Inl TypeError"
  by (simp add: inverse_proj_def np_transpose_def unpack_XY_def rectangular_def)

section \<open>Attitudes\<close>

lemma atan2_right: "0 < x \<Longrightarrow> atan2 y x = arctan (y / x)"
  by (simp add: atan2_def)

lemma atan2_upper_left: "x < 0 \<Longrightarrow> 0 \<le> y \<Longrightarrow> atan2 y x = arctan (y / x) + pi"
  by (simp add: atan2_def)

lemma atan2_lower_left: "x < 0 \<Longrightarrow> y < 0 \<Longrightarrow> atan2 y x = arctan (y / x) - pi"
  by (simp add: atan2_def)

lemma atan2_polar:
  assumes "0 < r" and "- pi < t" and "t \<le> pi"
  shows "atan2 (r * sin t) (r * cos t) = t"
proof -
  have q: "r * sin t / (r * cos t) = tan t"
    using assms(1) by (simp add: tan_def)
  consider "- (pi / 2) < t \<and> t < pi / 2" | "t = pi / 2" | "t = - (pi / 2)"
    | "pi / 2 < t" | "t < - (pi / 2)" by linarith
  then show ?thesis
  proof cases
    case 1
    then have "0 < cos t" by (simp add: cos_gt_zero_pi)
    then have "0 < r * cos t" using assms(1) by simp
    then have "atan2 (r * sin t) (r * cos t) = arctan (tan t)"
      by (simp only: atan2_right q)
    then show ?thesis using 1 by (simp add: arctan_tan)
  next
    case 2
    show ?thesis unfolding 2 using assms(1) by (simp add: atan2_def)
  next
    case 3
    show ?thesis unfolding 3 using assms(1) by (simp add: atan2_def)
  next
    case 4
    have cm: "cos (t - pi) = - cos t" by (simp only: cos_diff cos_pi sin_pi)
    have sm: "sin (t - pi) = - sin t" by (simp only: sin_diff cos_pi sin_pi)
    have b: "- (pi / 2) < t - pi" "t - pi < pi / 2" "t - pi \<le> 0" "- pi \<le> t - pi"
      using 4 assms(3) pi_gt_zero by linarith+
    have "0 < cos (t - pi)" by (rule cos_gt_zero_pi [OF b(1,2)])
    then have "cos t < 0" unfolding cm by linarith
    then have cneg: "r * cos t < 0" using assms(1) by (simp add: mult_pos_neg)
    have "0 \<le> t" using 4 pi_gt_zero by linarith
    then have "0 \<le> sin t" using assms(3) by (rule sin_ge_zero)
    then have spos: "0 \<le> r * sin t" using assms(1) by simp
    have "tan (t - pi) = tan t" unfolding tan_def cm sm by simp
    then have "arctan (tan t) = t - pi"
      using arctan_tan [OF b(1,2)] by simp
    moreover have "atan2 (r * sin t) (r * cos t) = arctan (tan t) + pi"
      using cneg spos by (simp only: atan2_upper_left q)
    ultimately show ?thesis by simp
  next
    case 5
    have cm: "cos (t + pi) = - cos t" by (simp only: cos_add cos_pi sin_pi)
    have sm: "sin (t + pi) = - sin t" by (simp only: sin_add cos_pi sin_pi)
    have b: "- (pi / 2) < t + pi" "t + pi < pi / 2" "0 < t + pi" "t + pi < pi"
      using 5 assms(2) pi_gt_zero by linarith+
    have "0 < cos (t + pi)" by (rule cos_gt_zero_pi [OF b(1,2)])
    then have "cos t < 0" unfolding cm by linarith
    then have cneg: "r * cos t < 0" using assms(1) by (simp add: mult_pos_neg)
    have "0 < sin (t + pi)" by (rule sin_gt_zero [OF b(3,4)])
    then have "sin t < 0" unfolding sm by linarith
    then have sneg: "r * sin t < 0" using assms(1) by (simp add: mult_pos_neg)
    have "tan (t + pi) = tan t" unfolding tan_def cm sm by simp
    then have "arctan (tan t) = t + pi"
      using arctan_tan [OF b(1,2)] by simp
    moreover have "atan2 (r * sin t) (r * cos t) = arctan (tan t) - pi"
      using cneg sneg by (simp only: atan2_lower_left q)
    ultimately show ?thesis by simp
  qed
qed

lemma py_mod_in_range:
  assumes "0 \<le> x" and "x < m"
  shows "py_mod x m = x"
proof -
  have "\<lfloor>x / m\<rfloor> = 0" using assms by (simp add: floor_eq_iff)
  then show ?thesis by (simp add: py_mod_def)
qed

lemma py_mod_negative:
  assumes "- m \<le> x" and "x < 0"
  shows "py_mod x m = x + m"
proof -
  have mpos: "0 < m" using assms by linarith
  have "\<lfloor>x / m\<rfloor> = - 1" using assms mpos by (simp add: floor_eq_iff field_simps)
  then show ?thesis by (simp add: py_mod_def)
qed

lemma degrees_radians: "degrees (radians d) = d"
  by (simp add: degrees_def radians_def)

lemma from_attitude_unit: "vec_length (from_attitude trend plunge) = 1"
proof -
  define p where "p = radians plunge"
  define t where "t = radians trend"
  have gen: "c * s * (c * s) + c * k * (c * k) + q * q = c * c * (s * s + k * k) + q * q"
    for c s k q :: real
    by (simp add: algebra_simps)
  have "dot (from_attitude trend plunge) (from_attitude trend plunge)
        = cos p * sin t * (cos p * sin t) + cos p * cos t * (cos p * cos t) + sin p * sin p"
    by (simp add: from_attitude_def dcos_line_def Let_def dot_def vx_def vy_def vz_def
        p_def t_def)
  also have "\<dots> = cos p * cos p * 1 + sin p * sin p"
    by (simp only: gen sin_cos_sq)
  also have "\<dots> = 1"
    by (simp add: sin_cos_sq)
  finally show ?thesis by (simp add: vec_length_def)
qed

section \<open>Claims\<close>

text \<open>
  C6, as the specification states it: every row of
  \<open>VectorSet.normalized_cross_with(other)\<close> is a unit vector with strictly negative z
  when the inputs are unit vectors and no pair is parallel or antiparallel. This fails:
  the unit vectors \<open>(1, 0, 0)\<close> and \<open>(0, 0, 1)\<close> are neither parallel nor antiparallel,
  their normalized cross product is \<open>(0, -1, 0)\<close>, whose z is not below zero, so the row
  is its negation \<open>(0, 1, 0)\<close>, with z equal to zero.
\<close>

theorem C6_strictly_negative_z_counterexample:
  "vec_length (1, 0, 0) = 1 \<and> vec_length (0, 0, 1) = 1
   \<and> (1, 0, 0) \<noteq> ((0, 0, 1) :: vec) \<and> (1, 0, 0) \<noteq> vneg (0, 0, 1)
   \<and> normalized_cross_with_set [(1, 0, 0)] [(0, 0, 1)] = [(0, 1, 0)]
   \<and> \<not> vz (0, 1, 0) < 0"
  by (simp add: vec_length_def dot_def vneg_def normalized_cross_with_set_def oriented_row_def
      normalized_cross_def cross_def vdiv_def vx_def vy_def vz_def Let_def)

text \<open>
  C6, amended: for unit vectors with no parallel or antiparallel pair, the result has
  one row per pair, and every row is a unit vector whose z-component is negative or zero.
\<close>

theorem C6_normalized_cross_with_unit_nonpositive_z:
  assumes "\<forall>a \<in> set self. vec_length a = 1"
    and "\<forall>b \<in> set other. vec_length b = 1"
    and "\<forall>a \<in> set self. \<forall>b \<in> set other. a \<noteq> b \<and> a \<noteq> vneg b"
  shows "length (normalized_cross_with_set self other) = length self * length other
         \<and> (\<forall>r \<in> set (normalized_cross_with_set self other). vec_length r = 1 \<and> vz r \<le> 0)"
proof
  show "length (normalized_cross_with_set self other) = length self * length other"
    by (induction self) (simp_all add: normalized_cross_with_set_def)
next
  show "\<forall>r \<in> set (normalized_cross_with_set self other). vec_length r = 1 \<and> vz r \<le> 0"
  proof
    fix r
    assume "r \<in> set (normalized_cross_with_set self other)"
    then obtain a b where "a \<in> set self" and "b \<in> set other" and r: "r = oriented_row a b"
      by (auto simp: normalized_cross_with_set_def)
    then show "vec_length r = 1 \<and> vz r \<le> 0"
      using assms oriented_row_props [of a b] by blast
  qed
qed

theorem C6_normalized_cross_with_witness:
  "normalized_cross_with_set [(1, 0, 0)] [(0, 1, 0)] = [(0, 0, - 1)]
   \<and> length (normalized_cross_with_set [(1, 0, 0)] [(0, 1, 0)]) = 1
   \<and> vec_length (0, 0, - 1) = 1 \<and> vz (0, 0, - 1) \<le> 0"
proof -
  have h1: "\<forall>a \<in> set [(1, 0, 0) :: vec]. vec_length a = 1"
    by (simp add: vec_length_def dot_def vx_def vy_def vz_def)
  have h2: "\<forall>b \<in> set [(0, 1, 0) :: vec]. vec_length b = 1"
    by (simp add: vec_length_def dot_def vx_def vy_def vz_def)
  have h3: "\<forall>a \<in> set [(1, 0, 0) :: vec]. \<forall>b \<in> set [(0, 1, 0) :: vec]. a \<noteq> b \<and> a \<noteq> vneg b"
    by (simp add: vneg_def vx_def vy_def vz_def)
  have e: "normalized_cross_with_set [(1, 0, 0)] [(0, 1, 0)] = [(0, 0, - 1)]"
    by (simp add: normalized_cross_with_set_def oriented_row_def normalized_cross_def
        cross_def dot_def vdiv_def vneg_def vx_def vy_def vz_def Let_def)
  show ?thesis
    using C6_normalized_cross_with_unit_nonpositive_z [OF h1 h2 h3] e by simp
qed

text \<open>
  C4: \<open>a.angle_with(b, precise=True)\<close> should return \<open>atan2(|a x b|, a . b)\<close>. The code
  passes the cross product itself, a \<open>Vector\<close> of three components, to \<open>math.atan2\<close>,
  so the call raises \<open>TypeError\<close> for every pair of 3-vectors. At \<open>a = (1, 0, 0)\<close>,
  \<open>b = (0, 1, 0)\<close> the claim gives a right angle, the code an exception.
\<close>

theorem C4_precise_angle_with_raises:
  "angle_with (1, 0, 0) (0, 1, 0) True = Inl TypeError
   \<and> atan2 (vec_length (cross (1, 0, 0) (0, 1, 0))) (dot (1, 0, 0) (0, 1, 0)) = pi / 2"
  by (simp add: angle_with_def float_of_array_def list_of_vec_def atan2_def vec_length_def
      cross_def dot_def vx_def vy_def vz_def)

text \<open>
  C5, as the specification states it: when \<open>_join_segments\<close> returns two or more
  segments, no two distinct returned segments have facing endpoints within the
  tolerance. This fails: each round only compares the first two segments of the list, and
  the loop stops at the first round that does not merge. Of the three segments below the
  first cannot be joined to the second, so the loop stops after one round, and returns the
  second and third segments unmerged although the tail of one is the head of the other.
\<close>

theorem C5_unmerged_neighbours_counterexample:
  "join_segments [[(1, 0, 0)], [(0, 0, - 1), (0, 1, 0)], [(0, 1, 0), (- 1, 0, 0)]] (radians 1)
     = Inr [[(0, 0, - 1), (0, 1, 0)], [(0, 1, 0), (- 1, 0, 0)], [(1, 0, 0)]]
   \<and> facing (radians 1) (last [(0, 0, - 1), (0, 1, 0)]) (hd [(0, 1, 0), (- 1, 0, 0)])"
  by (simp add: join_segments_def facing_def acos_angle_def vec_length_def np_clip_def
      radians_def vx_def vy_def vz_def dot_def)

text \<open>
  C5, amended: on a list of non-empty segments \<open>_join_segments\<close> returns, with no more
  segments than it was given; when it returns two or more segments, the last returned
  segment (popped in the final round) and the first returned segment have no pair of
  facing endpoints, in any of the four pairings, within the tolerance.
\<close>

theorem C5_join_segments_last_and_first_unjoinable:
  assumes "\<forall>s \<in> set segments. s \<noteq> []"
  shows "\<exists>res. join_segments segments c_tol = Inr res
           \<and> length res \<le> length segments
           \<and> (2 \<le> length res \<longrightarrow> unjoinable c_tol (last res) (hd res))"
proof -
  obtain res where r: "join_loop c_tol False segments = Inr res"
    using join_loop_total [OF assms] by blast
  have "length res \<le> length segments"
    by (rule join_loop_length [OF r])
  moreover have "2 \<le> length res \<longrightarrow> unjoinable c_tol (last res) (hd res)"
    using join_loop_last_first [OF r] by simp
  ultimately show ?thesis
    using r by (simp add: join_segments_def)
qed

theorem C5_join_segments_witness:
  "join_segments [[(1, 0, 0)], [(0, 1, 0)]] (radians 1) = Inr [[(0, 1, 0)], [(1, 0, 0)]]
   \<and> unjoinable (radians 1) [(1, 0, 0)] [(0, 1, 0)]"
proof -
  have h: "\<forall>s \<in> set [[(1, 0, 0)], [(0, 1, 0) :: vec]]. s \<noteq> []"
    by simp
  have e: "join_segments [[(1, 0, 0)], [(0, 1, 0)]] (radians 1) = Inr [[(0, 1, 0)], [(1, 0, 0)]]"
    by (simp add: join_segments_def facing_def acos_angle_def vec_length_def np_clip_def
        radians_def vx_def vy_def vz_def dot_def)
  show ?thesis
    using C5_join_segments_last_and_first_unjoinable [OF h, of "radians 1"] e by simp
qed

text \<open>
  C7, as the specification states it: \<open>build_rotation_matrix\<close> composes the rotation by
  \<open>rake\<close> about the x axis, then by \<open>plunge\<close> about the y axis, then by \<open>azimuth\<close> about
  the z axis. This fails on the axes: with azimuth and plunge zero and a rake of 90
  degrees, a rotation about x would leave the x axis where it is, and the program's
  matrix sends it to \<open>(0, 0, -1)\<close>.
\<close>

theorem C7_rake_about_x_counterexample:
  "build_rotation_matrix 0 0 90 \<noteq> spec_rotation_matrix 0 0 90
   \<and> mat_vec (build_rotation_matrix 0 0 90) (1, 0, 0) = (0, 0, - 1)
   \<and> mat_vec (spec_rotation_matrix 0 0 90) (1, 0, 0) = (1, 0, 0)"
  by (simp add: build_rotation_matrix_def spec_rotation_matrix_def R1_def R2_def R3_def
      spec_rot_x_def spec_rot_y_def spec_rot_z_def radians_def mat_mul_tuple mat_vec_def
      vx_def vy_def vz_def dot_def)

text \<open>
  C7, amended: for all azimuth, plunge and rake in degrees, \<open>build_rotation_matrix\<close> is
  an orthonormal matrix, the composition of the rotation by \<open>rake\<close> about the y axis
  first, then by \<open>plunge\<close> about the x axis, then by \<open>azimuth\<close> about the z axis.
\<close>

theorem C7_build_rotation_matrix_composition:
  "build_rotation_matrix azim plng rake =
     mat_mul (mat_mul (spec_rot_z (radians azim)) (spec_rot_x (radians plng)))
             (spec_rot_y (radians rake))
   \<and> mat_mul (build_rotation_matrix azim plng rake)
              (mat_transpose (build_rotation_matrix azim plng rake)) = eye3
   \<and> mat_mul (mat_transpose (build_rotation_matrix azim plng rake))
              (build_rotation_matrix azim plng rake) = eye3"
proof (intro conjI)
  show "build_rotation_matrix azim plng rake =
     mat_mul (mat_mul (spec_rot_z (radians azim)) (spec_rot_x (radians plng)))
             (spec_rot_y (radians rake))"
    by (simp add: build_rotation_matrix_def R1_def R2_def R3_def
        spec_rot_x_def spec_rot_y_def spec_rot_z_def)
qed (rule build_rotation_matrix_orthogonal)+

text \<open>
  C10: when \<open>A\<close> or \<open>B\<close> is not zero, \<open>get_small_circle\<close> ignores its \<open>offset\<close>: two
  calls that differ only in the offset return the same result.
\<close>

theorem C10_offset_ignored_when_modulated:
  "A \<noteq> 0 \<or> B \<noteq> 0 \<Longrightarrow>
   get_small_circle self alpha A B step o1 = get_small_circle self alpha A B step o2"
  by (auto simp add: get_small_circle_def)

theorem C10_offset_ignored_witness:
  "(1 :: real) \<noteq> 0
   \<and> get_small_circle (0, 0, 1) 1 1 0 1 0 = get_small_circle (0, 0, 1) 1 1 0 1 5"
proof -
  have h: "(1 :: real) \<noteq> 0 \<or> (0 :: real) \<noteq> 0" by simp
  show ?thesis
    using C10_offset_ignored_when_modulated [OF h, of "(0, 0, 1)" 1 1 0 5] by simp
qed

text \<open>
  C3: for a unit axis and a half-angle \<open>alpha\<close> strictly between 0 and \<open>pi\<close>,
  \<open>get_small_circle(alpha)\<close> with \<open>A = B = 0\<close> returns (for a step other than zero) two
  sequences of \<open>ceil(2 pi / step)\<close> points; every point \<open>p\<close> of the first satisfies
  \<open>axis.angle_with(p) = alpha\<close>, and the second is the pointwise negation of the first.
\<close>

theorem C3_small_circle_membership:
  assumes "vec_length axis = 1" and "0 < alpha" and "alpha < pi" and "step \<noteq> 0"
  shows "\<exists>up lo. get_small_circle axis alpha 0 0 step offset = Inr (up, lo)
           \<and> length up = nat \<lceil>2 * pi / step\<rceil>
           \<and> (\<forall>p \<in> set up. angle_with axis p False = Inr alpha)
           \<and> lo = map vneg up"
proof -
  have u: "dot axis axis = 1" using assms(1) by (simp add: vec_length_def)
  obtain gc where gc: "get_great_circle axis step offset = Inr gc"
    and len: "length gc = nat \<lceil>2 * pi / step\<rceil>"
    using get_great_circle_returns [OF assms(4)] by blast
  let ?up = "map (\<lambda>g. vadd (vscale g (sin alpha)) (vscale axis (cos alpha))) gc"
  have r: "get_small_circle axis alpha 0 0 step offset = Inr (?up, map vneg ?up)"
    using gc by (simp add: get_small_circle_def Let_def)
  have "\<forall>p \<in> set ?up. angle_with axis p False = Inr alpha"
  proof
    fix p assume "p \<in> set ?up"
    then obtain g where g: "g \<in> set gc" and p: "p = vadd (vscale g (sin alpha)) (vscale axis (cos alpha))"
      by auto
    have "dot p p = 1 \<and> dot axis p = cos alpha"
      unfolding p using sc_comb_unit [OF u] get_great_circle_point [OF u gc g] by simp
    then have "acos_angle axis p = alpha"
      using acos_angle_small_circle [OF u, of p alpha] assms(2,3) by simp
    then show "angle_with axis p False = Inr alpha"
      by (simp add: angle_with_def)
  qed
  then show ?thesis using r len by simp
qed

theorem C3_small_circle_witness:
  "vec_length (0, 0, 1) = 1 \<and> 0 < pi / 2 \<and> pi / 2 < pi
   \<and> (\<exists>up lo. get_small_circle (0, 0, 1) (pi / 2) 0 0 1 0 = Inr (up, lo)
           \<and> length up = nat \<lceil>2 * pi / 1\<rceil>
           \<and> list_all (\<lambda>p. angle_with (0, 0, 1) p False = Inr (pi / 2)) up
           \<and> lo = map vneg up)"
proof -
  have h1: "vec_length (0, 0, 1) = 1" by (simp add: vec_length_def vsimps)
  have h2: "0 < pi / 2" by simp
  have h3: "pi / 2 < pi" by simp
  have h4: "(1 :: real) \<noteq> 0" by simp
  show ?thesis
    using C3_small_circle_membership [OF h1 h2 h3 h4, of 0] h1 by (simp add: list_all_iff)
qed

text \<open>
  C9: for a unit axis (and, for \<open>arc_to\<close>, a unit target that is neither the axis nor
  its antipode; for \<open>sample_uniform\<close>, normal draws none of which is the zero vector),
  every vector returned by \<open>get_great_circle\<close>, \<open>get_small_circle\<close> (both sequences, any
  \<open>A\<close> and \<open>B\<close>), \<open>arc_to\<close>, \<open>sample_uniform\<close> and \<open>sample_fisher\<close> has magnitude 1;
  the first three return for every step other than zero.
\<close>

theorem C9_unit_sphere_invariant:
  assumes "vec_length axis = 1" and "step \<noteq> 0"
    and "vec_length other = 1" and "axis \<noteq> other" and "axis \<noteq> vneg other"
    and "\<forall>s \<in> set samples. s \<noteq> (0, 0, 0)"
  shows "(\<exists>ps. get_great_circle axis step offset = Inr ps
             \<and> (\<forall>p \<in> set ps. vec_length p = 1))
       \<and> (\<exists>up lo. get_small_circle axis alpha A B step offset = Inr (up, lo)
             \<and> (\<forall>p \<in> set up \<union> set lo. vec_length p = 1))
       \<and> (\<exists>ps. arc_to axis other step = Inr ps \<and> (\<forall>p \<in> set ps. vec_length p = 1))
       \<and> (length (sample_uniform samples) = length samples
             \<and> (\<forall>p \<in> set (sample_uniform samples). vec_length p = 1))
       \<and> (length (sample_fisher axis theta_sample alpha_sample)
               = min (length theta_sample) (length alpha_sample)
             \<and> (\<forall>p \<in> set (sample_fisher axis theta_sample alpha_sample). vec_length p = 1))"
proof (intro conjI)
  have u: "dot axis axis = 1" using assms(1) by (simp add: vec_length_def)
  have v: "dot other other = 1" using assms(3) by (simp add: vec_length_def)
  have nz: "cross axis other \<noteq> (0, 0, 0)"
    using unit_cross_zero [OF u v] assms(4,5) by blast
  show "\<exists>ps. get_great_circle axis step offset = Inr ps \<and> (\<forall>p \<in> set ps. vec_length p = 1)"
    using get_great_circle_returns [OF assms(2), of axis offset] get_great_circle_point [OF u]
    by (auto simp: vec_length_def)
  show "\<exists>up lo. get_small_circle axis alpha A B step offset = Inr (up, lo)
          \<and> (\<forall>p \<in> set up \<union> set lo. vec_length p = 1)"
  proof -
    obtain up where r: "get_small_circle axis alpha A B step offset = Inr (up, map vneg up)"
      using get_small_circle_returns [OF assms(2)] by blast
    have "\<forall>p \<in> set up. vec_length p = 1"
      using get_small_circle_point [OF u r] by (simp add: vec_length_def)
    then have "\<forall>p \<in> set up \<union> set (map vneg up). vec_length p = 1"
      by (auto simp: vec_length_vneg)
    then show ?thesis using r by blast
  qed
  show "\<exists>ps. arc_to axis other step = Inr ps \<and> (\<forall>p \<in> set ps. vec_length p = 1)"
    using arc_to_returns [OF assms(2), of axis other] arc_to_point [OF u nz]
    by (auto simp: vec_length_def)
  show "length (sample_uniform samples) = length samples"
    by (simp add: sample_uniform_def)
  show "\<forall>p \<in> set (sample_uniform samples). vec_length p = 1"
    using assms(6) sample_uniform_point by (auto simp: sample_uniform_def vec_length_unit_iff)
  show "length (sample_fisher axis theta_sample alpha_sample)
          = min (length theta_sample) (length alpha_sample)"
    by (simp add: sample_fisher_def Let_def)
  show "\<forall>p \<in> set (sample_fisher axis theta_sample alpha_sample). vec_length p = 1"
    using sample_fisher_point [OF u] by (simp add: vec_length_def)
qed

theorem C9_unit_sphere_witness:
  "vec_length (0, 0, 1) = 1 \<and> vec_length (1, 0, 0) = 1
   \<and> (\<exists>ps. get_great_circle (0, 0, 1) 1 0 = Inr ps \<and> list_all (\<lambda>p. vec_length p = 1) ps)
   \<and> (\<exists>up lo. get_small_circle (0, 0, 1) 1 0 0 1 0 = Inr (up, lo)
         \<and> list_all (\<lambda>p. vec_length p = 1) (up @ lo))
   \<and> (\<exists>ps. arc_to (0, 0, 1) (1, 0, 0) 1 = Inr ps \<and> list_all (\<lambda>p. vec_length p = 1) ps)
   \<and> sample_uniform [(0, 0, 2)] = [(0, 0, 1)]
   \<and> list_all (\<lambda>p. vec_length p = 1) (sample_uniform [(0, 0, 2)])
   \<and> sample_fisher (0, 0, 1) [0] [0] = [(0, 0, 1)]
   \<and> list_all (\<lambda>p. vec_length p = 1) (sample_fisher (0, 0, 1) [0] [0])"
proof -
  have h1: "vec_length (0, 0, 1) = 1" by (simp add: vec_length_def vsimps)
  have h2: "(1 :: real) \<noteq> 0" by simp
  have h3: "vec_length (1, 0, 0) = 1" by (simp add: vec_length_def vsimps)
  have h4: "(0, 0, 1) \<noteq> ((1, 0, 0) :: vec)" by simp
  have h5: "(0, 0, 1) \<noteq> vneg (1, 0, 0)" by (simp add: vneg_def vsimps)
  have h6: "\<forall>s \<in> set [(0, 0, 2) :: vec]. s \<noteq> (0, 0, 0)" by simp
  have e1: "sample_uniform [(0, 0, 2)] = [(0, 0, 1)]"
    by (simp add: sample_uniform_def vdiv_def vec_length_def vsimps)
  have e2: "sample_fisher (0, 0, 1) [0] [0] = [(0, 0, 1)]"
    by (simp add: sample_fisher_def direction_vector_def dip_vector_def cross_def vdiv_def
        vec_length_def vadd_def vscale_def vsimps)
  show ?thesis
    using C9_unit_sphere_invariant [OF h1 h2 h3 h4 h5 h6, of 0 1 0 0 "[0]" "[0]"] h1 h3 e1 e2
    by (simp add: list_all_iff ball_Un)
qed

text \<open>
  C2: for every trend in \<open>[0, 360)\<close> and plunge in \<open>[0, 90]\<close>,
  \<open>Vector.from_attitude(trend, plunge).attitude\<close> has the plunge it was given, and, when
  the plunge is below 90, the trend it was given; at the pole only the plunge is required.
\<close>

theorem C2_attitude_round_trip:
  assumes "0 \<le> trend" and "trend < 360" and "0 \<le> plunge" and "plunge \<le> 90"
  shows "snd (attitude (from_attitude trend plunge)) = plunge
       \<and> (plunge < 90 \<longrightarrow> fst (attitude (from_attitude trend plunge)) = trend)"
proof -
  define tr where "tr = radians trend"
  define pl where "pl = radians plunge"
  have pl0: "0 \<le> pl" and pl1: "pl \<le> pi / 2"
    using assms(3,4) by (simp_all add: pl_def radians_def)
  have tr0: "0 \<le> tr" and tr1: "tr < 2 * pi"
    using assms(1,2) by (simp_all add: tr_def radians_def)
  have v: "from_attitude trend plunge = (cos pl * sin tr, cos pl * cos tr, - sin pl)"
    by (simp add: from_attitude_def dcos_line_def Let_def tr_def pl_def)
  have n: "vdiv (from_attitude trend plunge) (vec_length (from_attitude trend plunge))
           = (cos pl * sin tr, cos pl * cos tr, - sin pl)"
    by (simp add: from_attitude_unit) (simp add: v vdiv_def vx_def vy_def vz_def)
  have plpi: "pl \<le> pi" using pl1 pi_gt_zero by linarith
  have sp: "0 \<le> sin pl" by (rule sin_ge_zero [OF pl0 plpi])
  have a: "attitude (from_attitude trend plunge)
           = (py_mod (degrees (atan2 (cos pl * sin tr) (cos pl * cos tr))) 360,
              degrees (arcsin (sin pl)))"
    using sp by (simp add: attitude_def n Let_def vx_def vy_def vz_def)
  have plm: "- (pi / 2) \<le> pl" using pl0 pi_gt_zero by linarith
  have "arcsin (sin pl) = pl" by (rule arcsin_sin [OF plm pl1])
  then have plunge_ok: "snd (attitude (from_attitude trend plunge)) = plunge"
    by (simp add: a pl_def degrees_radians)
  have trend_ok: "fst (attitude (from_attitude trend plunge)) = trend" if lt: "plunge < 90"
  proof -
    have "pl < pi / 2" using lt by (simp add: pl_def radians_def)
    moreover have "- (pi / 2) < pl" using pl0 pi_gt_zero by linarith
    ultimately have cpos: "0 < cos pl" by (intro cos_gt_zero_pi)
    show ?thesis
    proof (cases "tr \<le> pi")
      case True
      have "- pi < tr" using tr0 pi_gt_zero by linarith
      then have "atan2 (cos pl * sin tr) (cos pl * cos tr) = tr"
        using True by (intro atan2_polar [OF cpos])
      then show ?thesis
        using assms(1,2) by (simp add: a tr_def degrees_radians py_mod_in_range)
    next
      case False
      have e: "sin (tr - 2 * pi) = sin tr" "cos (tr - 2 * pi) = cos tr"
        by (simp_all only: sin_diff cos_diff sin_two_pi cos_two_pi)
      have b: "- pi < tr - 2 * pi" "tr - 2 * pi \<le> pi"
        using False tr1 pi_gt_zero by linarith+
      have "atan2 (cos pl * sin (tr - 2 * pi)) (cos pl * cos (tr - 2 * pi)) = tr - 2 * pi"
        by (rule atan2_polar [OF cpos b])
      then have "atan2 (cos pl * sin tr) (cos pl * cos tr) = tr - 2 * pi"
        unfolding e .
      moreover have "degrees (tr - 2 * pi) = trend - 360"
        by (simp add: degrees_def tr_def radians_def field_simps)
      moreover have "py_mod (trend - 360) 360 = trend - 360 + 360"
        using assms(1,2) by (intro py_mod_negative) linarith+
      ultimately show ?thesis by (simp add: a)
    qed
  qed
  show ?thesis using plunge_ok trend_ok by simp
qed

theorem C2_attitude_round_trip_witness:
  "(0 :: real) \<le> 90 \<and> (90 :: real) < 360 \<and> (0 :: real) \<le> 0 \<and> (0 :: real) \<le> 90
   \<and> snd (attitude (from_attitude 90 0)) = 0 \<and> fst (attitude (from_attitude 90 0)) = 90"
proof -
  have h1: "(0 :: real) \<le> 90" and h2: "(90 :: real) < 360" and h3: "(0 :: real) \<le> 0"
    by simp_all
  show ?thesis
    using C2_attitude_round_trip [OF h1 h2 h3 h1] by simp
qed

text \<open>
  C8: with \<open>invert_positive=True\<close>, for a list of non-zero points (and for one non-zero
  point given alone) and either setting of \<open>rotate\<close>, \<open>_pre_direct\<close> returns, for each
  point, the point in the frame of the projection, replaced by its antipode when its z
  there is positive, and normalized; each result has unit magnitude and z at most 0, and
  \<open>direct\<close> is the forward transform of these points.
\<close>

theorem C8_pre_direct_lower_unit:
  assumes "pts \<noteq> []" and "\<forall>v \<in> set pts. v \<noteq> (0, 0, 0)"
  shows "pre_direct p (Arr2 (map list_of_vec pts)) True rotate_on
           = Inr (Many (map (\<lambda>v. lower_unit (in_frame p rotate_on v)) pts))
       \<and> direct p (Arr2 (map list_of_vec pts)) True rotate_on
           = Inr (Many (map (\<lambda>v. dtr (kind p) (lower_unit (in_frame p rotate_on v))) pts))
       \<and> (\<forall>v \<in> set pts. vec_length (lower_unit (in_frame p rotate_on v)) = 1
                           \<and> vz (lower_unit (in_frame p rotate_on v)) \<le> 0)
       \<and> pre_direct p (Arr1 (list_of_vec (hd pts))) True rotate_on
           = Inr (Single (lower_unit (in_frame p rotate_on (hd pts))))
       \<and> direct p (Arr1 (list_of_vec (hd pts))) True rotate_on
           = Inr (Single (dtr (kind p) (lower_unit (in_frame p rotate_on (hd pts)))))"
  using assms
  by (simp add: direct_def pre_direct_points pre_direct_point pre_point_lower_unit comp_def
      lower_unit_props in_frame_nonzero)

theorem C8_pre_direct_witness:
  "pre_direct \<lparr>kind = EqualArea, rotation = None\<rparr> (Arr2 [[0, 0, 2]]) True True
     = Inr (Many [(0, 0, - 1)])
   \<and> direct \<lparr>kind = EqualArea, rotation = None\<rparr> (Arr2 [[0, 0, 2]]) True True
     = Inr (Many [(0, 0)])
   \<and> vec_length (0, 0, - 1) = 1 \<and> vz (0, 0, - 1) \<le> 0"
proof -
  have h1: "[(0, 0, 2) :: vec] \<noteq> []" by simp
  have h2: "\<forall>v \<in> set [(0, 0, 2) :: vec]. v \<noteq> (0, 0, 0)" by simp
  have e: "lower_unit (in_frame \<lparr>kind = EqualArea, rotation = None\<rparr> True (0, 0, 2)) = (0, 0, - 1)"
    by (simp add: lower_unit_def in_frame_def vneg_def vdiv_def vec_length_def dot_def
        vx_def vy_def vz_def)
  show ?thesis
    using C8_pre_direct_lower_unit [OF h1 h2, of "\<lparr>kind = EqualArea, rotation = None\<rparr>" True] e
    by (simp add: list_of_vec_def vx_def vy_def vz_def)
qed

text \<open>
  C1, as the specification states it: for a unit vector \<open>v\<close> with \<open>z \<le> 0\<close> and each of
  the three projections without rotation, \<open>inverse(direct([v], invert_positive=False))\<close>
  returns \<open>v\<close>. This fails twice at the south pole \<open>v = (0, 0, -1)\<close>. \<open>direct([v])\<close>
  returns the pair of coordinate arrays \<open>([X], [Y])\<close>, which \<open>inverse\<close> transposes to the
  single row \<open>[X, Y]\<close> and unpacks into one argument of \<open>_itr\<close>: a \<open>TypeError\<close>, for every
  projection. And for \<open>Orthographic\<close>, also when the point is passed alone so that the
  shapes fit, the inverse takes the non-negative root and returns \<open>(0, 0, 1)\<close>.
\<close>

theorem C1_round_trip_counterexample:
  "vec_length (0, 0, - 1) = 1 \<and> vz (0, 0, - 1) \<le> 0
   \<and> round_trip \<lparr>kind = EqualAngle, rotation = None\<rparr> (Arr2 [[0, 0, - 1]]) = Inl TypeError
   \<and> round_trip \<lparr>kind = Orthographic, rotation = None\<rparr> (Arr1 [0, 0, - 1])
        = Inr (Arr1 [0, 0, 1])"
  by (simp add: round_trip_def direct_def pre_direct_def np_transpose_def rectangular_def
      unpack_xyz_def unpack_XY_def pre_point_def inverse_proj_def post_inverse_def
      map_upt_3 map_upt_2 list_of_vec_def vec_length_def dot_def vx_def vy_def vz_def)

text \<open>
  C1, amended: for a unit vector \<open>v\<close> with \<open>z \<le> 0\<close> and the projections \<open>EqualAngle\<close>
  and \<open>EqualArea\<close> without rotation, \<open>inverse\<close> returns \<open>[v]\<close> from the transposed
  result of \<open>direct([v], invert_positive=False)\<close> (one row \<open>(X, Y)\<close> per point), and
  returns \<open>v\<close> from \<open>direct(v, invert_positive=False)\<close> when the point is passed alone.
\<close>

theorem C1_round_trip_rows:
  assumes "vec_length v = 1" and "vz v \<le> 0" and "rotation p = None"
    and "kind p = EqualAngle \<or> kind p = EqualArea"
  shows "round_trip_rows p (Arr2 [list_of_vec v]) = Inr (Arr2 [list_of_vec v])
       \<and> round_trip p (Arr1 (list_of_vec v)) = Inr (Arr1 (list_of_vec v))"
proof -
  obtain X Y where d: "dtr (kind p) v = (X, Y)" by (cases "dtr (kind p) v")
  have lt: "vz v < 1" using assms(2) by linarith
  have "itr (kind p) (dtr (kind p) v) = v"
    using assms(4) itr_dtr_EqualAngle [OF assms(1) lt] itr_dtr_EqualArea [OF assms(1) lt]
    by auto
  then have i: "itr (kind p) (X, Y) = v"
    using d by simp
  have t: "np_transpose (Arr2 [[X], [Y]]) = Inr (Arr2 [[X, Y]])"
    by (simp add: np_transpose_def rectangular_def)
  show ?thesis
    by (simp add: round_trip_def round_trip_rows_def direct_point [OF assms(1,3)]
        direct_row [OF assms(1,3)] d inverse_proj_point [OF assms(3)]
        inverse_proj_row [OF assms(3)] t i)
qed

theorem C1_round_trip_witness:
  "vec_length (0, 0, - 1) = 1 \<and> vz (0, 0, - 1) \<le> 0
   \<and> round_trip_rows \<lparr>kind = EqualArea, rotation = None\<rparr> (Arr2 [[0, 0, - 1]])
        = Inr (Arr2 [[0, 0, - 1]])
   \<and> round_trip \<lparr>kind = EqualArea, rotation = None\<rparr> (Arr1 [0, 0, - 1])
        = Inr (Arr1 [0, 0, - 1])"
proof -
  have h1: "vec_length (0, 0, - 1) = 1"
    by (simp add: vec_length_def dot_def vx_def vy_def vz_def)
  have h2: "vz (0, 0, - 1) \<le> 0" by (simp add: vz_def)
  have h3: "rotation \<lparr>kind = EqualArea, rotation = None\<rparr> = None" by simp
  have h4: "kind \<lparr>kind = EqualArea, rotation = None\<rparr> = EqualAngle
            \<or> kind \<lparr>kind = EqualArea, rotation = None\<rparr> = EqualArea" by simp
  show ?thesis
    using C1_round_trip_rows [OF h1 h2 h3 h4] h1 h2
    by (simp add: list_of_vec_def vx_def vy_def vz_def)
qed

end
